theory Spec2Isabelle
  imports Main
begin

section \<open>Paths, errors and console output\<close>

text \<open>
  A \<^verbatim>\<open>pathlib.Path\<close> is modelled by its string; \<^verbatim>\<open>p / s\<close> appends one component.
  Item and module names are single relative components (the module validator, an
  external collaborator, guarantees it), so the absolute-operand and dot-component
  rules of pathlib never apply.
\<close>

type_synonym path = string

definition pjoin :: "path \<Rightarrow> string \<Rightarrow> path" where
  "pjoin p s = p @ ''/'' @ s"

text \<open>\<^verbatim>\<open>Path(s).name\<close>: the last component, trailing separators dropped.\<close>

definition path_name :: "string \<Rightarrow> string" where
  "path_name s = rev (takeWhile (\<lambda>c. c \<noteq> CHR ''/'') (dropWhile (\<lambda>c. c = CHR ''/'') (rev s)))"

datatype error = ValueError string | SystemExit nat | OSError string

text \<open>\<^verbatim>\<open>str(e)\<close> for the messages the code prints.\<close>

fun error_str :: "error \<Rightarrow> string" where
  "error_str (ValueError msg) = msg"
| "error_str (SystemExit n) = ''SystemExit''"
| "error_str (OSError msg) = msg"

text \<open>Python truthiness of an \<^verbatim>\<open>Optional[str]\<close>: \<^verbatim>\<open>None\<close> and the empty string are false.\<close>

fun truthy :: "string option \<Rightarrow> bool" where
  "truthy None = False"
| "truthy (Some s) = (s \<noteq> [])"

text \<open>What reaches the terminal: a printed line, or a confirmation prompt.\<close>

datatype out = Print string | Prompt string

section \<open>Naming scheme\<close>

text \<open>
  \<^verbatim>\<open>prefixed_name = f"{module.name}-{skill_name}"\<close> (installer.py, lines 127 and 144).
\<close>

definition prefixed_name :: "string \<Rightarrow> string \<Rightarrow> string" where
  "prefixed_name m i = m @ ''-'' @ i"

text \<open>\<^verbatim>\<open>s.startswith(p)\<close>.\<close>

definition startswith :: "string \<Rightarrow> string \<Rightarrow> bool" where
  "startswith s p = (take (length p) s = p)"

text \<open>
  The inverse used by the update flow (install.py, lines 380-384 and 398-402):
  \<^verbatim>\<open>
  prefix = f"{inst.module_name}-"
  if prefixed_skill.startswith(prefix):
      original_skill = prefixed_skill[len(prefix):]
  else:
      original_skill = prefixed_skill  # Fallback for old records
  \<close>
\<close>

definition original_skill :: "string \<Rightarrow> string \<Rightarrow> string" where
  "original_skill m prefixed_skill =
     (let prefix = m @ ''-'' in
      if startswith prefixed_skill prefix then drop (length prefix) prefixed_skill
      else prefixed_skill)"

section \<open>Configuration (config.py)\<close>

text \<open>
  The table \<^verbatim>\<open>ASSISTANTS\<close>: per assistant the user-scope location and the function
  from a project path to the project-scope location. \<^verbatim>\<open>Path.home()\<close> is ambient, so the
  table takes it as its argument.
\<close>

definition ASSISTANTS :: "path \<Rightarrow> (string \<times> (path \<times> (string \<Rightarrow> path))) list" where
  "ASSISTANTS home_dir =
     [(''claude-code'',
         (pjoin (pjoin home_dir ''.claude'') ''skills'',
          \<lambda>p. pjoin (pjoin p ''.claude'') ''skills'')),
      (''gemini-cli'',
         (pjoin (pjoin home_dir ''.gemini'') ''GEMINI.md'',
          \<lambda>p. pjoin p ''GEMINI.md'')),
      (''cursor'',
         (pjoin (pjoin home_dir ''.cursor'') ''rules'',
          \<lambda>p. pjoin (pjoin p ''.cursor'') ''rules''))]"

text \<open>The text of \<^verbatim>\<open>list(ASSISTANTS.keys())\<close> inside the error message.\<close>

definition supported_str :: string where
  "supported_str =
     ''['' @ [CHR 0x27] @ ''claude-code'' @ [CHR 0x27] @ '', '' @
     [CHR 0x27] @ ''gemini-cli'' @ [CHR 0x27] @ '', '' @
     [CHR 0x27] @ ''cursor'' @ [CHR 0x27] @ '']''"

text \<open>
  \<^verbatim>\<open>get_assistant_skill_path(assistant, scope, project_path)\<close> (config.py, lines 45-66).
  It raises \<^verbatim>\<open>ValueError\<close> for an unknown assistant and for project scope without a
  project path; any scope other than \<^verbatim>\<open>'project'\<close> yields the user location.
\<close>

definition get_assistant_skill_path :: "path \<Rightarrow> string \<Rightarrow> string \<Rightarrow> string option \<Rightarrow> error + path" where
  "get_assistant_skill_path home_dir asst scp ppath =
     (case map_of (ASSISTANTS home_dir) asst of
        None \<Rightarrow> Inl (ValueError (''Unknown assistant: '' @ asst @ ''. Supported: '' @ supported_str))
      | Some (user_loc, project_loc) \<Rightarrow>
          if scp = ''project'' then
            (if \<not> truthy ppath then Inl (ValueError ''Project path required for project scope'')
             else Inr (project_loc (the ppath)))
          else Inr user_loc)"

section \<open>Data model\<close>

text \<open>
  Modelled from the spec: the class \<^verbatim>\<open>Module\<close> of \<^verbatim>\<open>lola.models\<close> is not among the
  sources. Section 6 of the specification gives what the core consumes from it: a name,
  a filesystem path, a list of skill item paths and a list of command names.
\<close>

record module =
  mod_name :: string
  mod_path :: path
  mod_skills :: "string list"
  mod_commands :: "string list"

text \<open>
  Modelled from the spec: the class \<^verbatim>\<open>Installation\<close> of \<^verbatim>\<open>lola.models\<close> is not among
  the sources. Its fields are those of section 3 and of the constructor call in
  \<^verbatim>\<open>install_to_assistant\<close> (installer.py, lines 188-195).
\<close>

record installation =
  "module_name" :: string
  assistant :: string
  scope :: string
  project_path :: "string option"
  skills :: "string list"
  commands :: "string list"

text \<open>
  Modelled from the spec: the class \<^verbatim>\<open>InstallationRegistry\<close> of \<^verbatim>\<open>lola.models\<close> is not
  among the sources. Section 4.3: \<open>add\<close> upserts by the tuple (module, assistant, scope,
  project) and replaces a prior record wholesale; \<open>find\<close> returns the records of a
  module in insertion order; \<open>remove\<close> deletes the matching record if present; \<open>all\<close> is
  the full snapshot. The registry is the ordered sequence of its records.
\<close>

definition same_target :: "string \<Rightarrow> string \<Rightarrow> string \<Rightarrow> string option \<Rightarrow> installation \<Rightarrow> bool" where
  "same_target m a s p r =
     (module_name r = m \<and> assistant r = a \<and> scope r = s \<and> project_path r = p)"

definition registry_add :: "installation \<Rightarrow> installation list \<Rightarrow> installation list" where
  "registry_add r reg =
     filter (\<lambda>x. \<not> same_target (module_name r) (assistant r) (scope r) (project_path r) x) reg @ [r]"

definition registry_find :: "installation list \<Rightarrow> string \<Rightarrow> installation list" where
  "registry_find reg m = filter (\<lambda>r. module_name r = m) reg"

definition registry_remove :: "installation list \<Rightarrow> string \<Rightarrow> string \<Rightarrow> string \<Rightarrow> string option \<Rightarrow> installation list" where
  "registry_remove reg m a s p = filter (\<lambda>x. \<not> same_target m a s p x) reg"


section \<open>The environment of the core\<close>

text \<open>
  Everything the core calls but does not define. The filesystem is a value of an
  arbitrary type \<open>'fs\<close>; the operating system's primitives read it or return the new one,
  together with the exception they raise, if any.

  Modelled from the spec: the functions of \<^verbatim>\<open>lola.core.generator\<close>, \<^verbatim>\<open>lola.utils\<close>,
  \<^verbatim>\<open>lola.command_converters\<close> and the methods \<^verbatim>\<open>Module.from_path\<close> and
  \<^verbatim>\<open>Module.validate\<close> are not among the sources. Section 6 treats them as external
  collaborators known by their interface only (a source and a destination in, success
  or failure out), so each is a field of the environment and every theorem holds for
  all of them. The location table behind \<^verbatim>\<open>get_assistant_command_path\<close> is absent as
  well and is the field \<open>command_location\<close>.
\<close>

record 'fs env =
  path_exists :: "'fs \<Rightarrow> path \<Rightarrow> bool"
  is_symlink :: "'fs \<Rightarrow> path \<Rightarrow> bool"
  resolve :: "'fs \<Rightarrow> path \<Rightarrow> path"
  mkdir_parents :: "'fs \<Rightarrow> path \<Rightarrow> error option \<times> 'fs"
  unlink :: "'fs \<Rightarrow> path \<Rightarrow> error option \<times> 'fs"
  rmtree :: "'fs \<Rightarrow> path \<Rightarrow> error option \<times> 'fs"
  copytree :: "'fs \<Rightarrow> path \<Rightarrow> path \<Rightarrow> error option \<times> 'fs"
  home :: path
  MODULES_DIR :: path
  command_location :: "string \<Rightarrow> string \<Rightarrow> string option \<Rightarrow> path"
  generate_claude_skill :: "'fs \<Rightarrow> path \<Rightarrow> path \<Rightarrow> bool \<times> 'fs"
  generate_cursor_rule :: "'fs \<Rightarrow> path \<Rightarrow> path \<Rightarrow> string \<Rightarrow> string option \<Rightarrow> bool \<times> 'fs"
  generate_claude_command :: "'fs \<Rightarrow> path \<Rightarrow> path \<Rightarrow> string \<Rightarrow> string \<Rightarrow> bool \<times> 'fs"
  generate_cursor_command :: "'fs \<Rightarrow> path \<Rightarrow> path \<Rightarrow> string \<Rightarrow> string \<Rightarrow> bool \<times> 'fs"
  generate_gemini_command :: "'fs \<Rightarrow> path \<Rightarrow> path \<Rightarrow> string \<Rightarrow> string \<Rightarrow> bool \<times> 'fs"
  get_skill_description :: "'fs \<Rightarrow> path \<Rightarrow> string"
  update_gemini_md :: "'fs \<Rightarrow> path \<Rightarrow> string \<Rightarrow> (string \<times> string \<times> path) list \<Rightarrow> string option \<Rightarrow> bool \<times> 'fs"
  remove_gemini_skills :: "'fs \<Rightarrow> path \<Rightarrow> string \<Rightarrow> bool \<times> 'fs"
  get_command_filename :: "string \<Rightarrow> string \<Rightarrow> string \<Rightarrow> string"
  get_local_modules_path :: "string option \<Rightarrow> path"
  ensure_lola_dirs :: "'fs \<Rightarrow> 'fs"
  module_from_path :: "'fs \<Rightarrow> path \<Rightarrow> module option"
  module_validate :: "'fs \<Rightarrow> module \<Rightarrow> bool \<times> string list"
  confirm :: "string \<Rightarrow> bool"

text \<open>
  What a command can change: the filesystem, the registry (the records of
  \<^verbatim>\<open>installed.yml\<close>) and the terminal.
\<close>

record 'fs state =
  fs :: 'fs
  registry :: "installation list"
  console :: "out list"

definition say :: "string \<Rightarrow> 'fs state \<Rightarrow> 'fs state" where
  "say line st = st\<lparr>console := console st @ [Print line]\<rparr>"

text \<open>
  Modelled from the spec: \<^verbatim>\<open>get_assistant_command_path\<close> is imported from
  \<^verbatim>\<open>lola.config\<close> but its definition is not among the sources. Section 4.2:
  \<open>resolveCommandPath(scope, projectPath) -> Path\<close> always succeeds for a known
  assistant. The callers catch \<^verbatim>\<open>ValueError\<close>, which is what an unknown assistant gives.
\<close>

definition get_assistant_command_path :: "'fs env \<Rightarrow> string \<Rightarrow> string \<Rightarrow> string option \<Rightarrow> error + path" where
  "get_assistant_command_path E asst scp ppath =
     (if asst \<in> set (map fst (ASSISTANTS (home E))) then Inr (command_location E asst scp ppath)
      else Inl (ValueError (''Unknown assistant: '' @ asst @ ''. Supported: '' @ supported_str)))"

section \<open>Installation (core/installer.py)\<close>

text \<open>
  \<^verbatim>\<open>copy_module_to_local(module, local_modules_path)\<close> (lines 35-65). The result is the
  returned path or the exception raised, and the filesystem as it is left.
\<close>

definition copy_module_to_local :: "'fs env \<Rightarrow> module \<Rightarrow> path \<Rightarrow> 'fs \<Rightarrow> (error + path) \<times> 'fs" where
  "copy_module_to_local E m local_modules_path f =
     (let dest = pjoin local_modules_path (mod_name m) in
      if resolve E f dest = resolve E f (mod_path m) then (Inr dest, f)
      else
        (case mkdir_parents E f local_modules_path of
           (Some e, f1) \<Rightarrow> (Inl e, f1)
         | (None, f1) \<Rightarrow>
             (case (if is_symlink E f1 dest \<or> path_exists E f1 dest then
                      (if is_symlink E f1 dest then unlink E f1 dest else rmtree E f1 dest)
                    else (None, f1)) of
                (Some e, f2) \<Rightarrow> (Inl e, f2)
              | (None, f2) \<Rightarrow>
                  (case copytree E f2 (mod_path m) dest of
                     (Some e, f3) \<Rightarrow> (Inl e, f3)
                   | (None, f3) \<Rightarrow> (Inr dest, f3)))))"

text \<open>
  The loop over \<^verbatim>\<open>module.skills\<close> for gemini-cli (lines 123-134). It only reads the
  filesystem. The accumulators are \<^verbatim>\<open>gemini_skills\<close> and \<^verbatim>\<open>installed_skills\<close>.
\<close>

fun gemini_skills_loop ::
  "'fs env \<Rightarrow> module \<Rightarrow> path \<Rightarrow> string list \<Rightarrow>
   (string \<times> string \<times> path) list \<Rightarrow> string list \<Rightarrow> 'fs state \<Rightarrow>
   (string \<times> string \<times> path) list \<times> string list \<times> 'fs state" where
  "gemini_skills_loop E m local_module_path [] gemini_skills installed_skills st =
     (gemini_skills, installed_skills, st)"
| "gemini_skills_loop E m local_module_path (skill_rel # rest) gemini_skills installed_skills st =
     (let skill_name = path_name skill_rel;
          source = pjoin local_module_path skill_name;
          prefixed = prefixed_name (mod_name m) skill_name
      in if path_exists E (fs st) source then
           gemini_skills_loop E m local_module_path rest
             (gemini_skills @ [(skill_name, get_skill_description E (fs st) source, source)])
             (installed_skills @ [prefixed])
             (say (''  [green]'' @ prefixed @ ''[/green]'') st)
         else
           gemini_skills_loop E m local_module_path rest gemini_skills installed_skills
             (say (''  [red]'' @ skill_name @ ''[/red] (source not found)'') st))"

text \<open>
  The gemini-cli branch (lines 121-137): the loop, then one call of
  \<^verbatim>\<open>update_gemini_md\<close> if \<^verbatim>\<open>gemini_skills\<close> is not empty. The call is a statement:
  what it returns is dropped.
\<close>

definition install_gemini_skills ::
  "'fs env \<Rightarrow> module \<Rightarrow> path \<Rightarrow> path \<Rightarrow> string option \<Rightarrow> 'fs state \<Rightarrow> string list \<times> 'fs state" where
  "install_gemini_skills E m local_module_path skill_dest ppath st =
     (case gemini_skills_loop E m local_module_path (mod_skills m) [] [] st of
        (gemini_skills, installed_skills, st1) \<Rightarrow>
          if gemini_skills \<noteq> [] then
            (installed_skills,
             st1\<lparr>fs := snd (update_gemini_md E (fs st1) skill_dest (mod_name m) gemini_skills
                                ppath)\<rparr>)
          else (installed_skills, st1))"

text \<open>The loop of the claude-code and cursor branch (lines 140-156).\<close>

fun skill_files_loop ::
  "'fs env \<Rightarrow> module \<Rightarrow> string \<Rightarrow> path \<Rightarrow> path \<Rightarrow> string option \<Rightarrow> string list \<Rightarrow>
   string list \<Rightarrow> 'fs state \<Rightarrow> string list \<times> 'fs state" where
  "skill_files_loop E m asst local_module_path skill_dest ppath [] installed_skills st =
     (installed_skills, st)"
| "skill_files_loop E m asst local_module_path skill_dest ppath (skill_rel # rest) installed_skills st =
     (let skill_name = path_name skill_rel;
          source = pjoin local_module_path skill_name;
          prefixed = prefixed_name (mod_name m) skill_name
      in case (if asst = ''cursor'' then
                 generate_cursor_rule E (fs st) source skill_dest prefixed ppath
               else generate_claude_skill E (fs st) source (pjoin skill_dest prefixed)) of
           (success, f') \<Rightarrow>
             if success then
               skill_files_loop E m asst local_module_path skill_dest ppath rest
                 (installed_skills @ [prefixed])
                 (say (''  [green]'' @ prefixed @ ''[/green]'') (st\<lparr>fs := f'\<rparr>))
             else
               skill_files_loop E m asst local_module_path skill_dest ppath rest installed_skills
                 (say (''  [red]'' @ skill_name @ ''[/red] (source not found)'') (st\<lparr>fs := f'\<rparr>)))"

text \<open>
  The two scope restrictions (lines 100-109): the lines printed and the flag
  \<^verbatim>\<open>skills_skipped\<close>.
\<close>

definition skills_skipped :: "string \<Rightarrow> string \<Rightarrow> bool" where
  "skills_skipped asst scp =
     ((asst = ''gemini-cli'' \<and> scp = ''user'') \<or> (asst = ''cursor'' \<and> scp = ''user''))"

definition report_skipped :: "string \<Rightarrow> string \<Rightarrow> 'fs state \<Rightarrow> 'fs state" where
  "report_skipped asst scp st =
     (let st1 =
        (if asst = ''gemini-cli'' \<and> scp = ''user'' then
           say ''  Gemini CLI skills can only read files within project directories.''
             (say (''[yellow]'' @ asst @ ''[/yellow] skills -> skipped (user scope not supported)'') st)
         else st)
      in if asst = ''cursor'' \<and> scp = ''user'' then
           say ''  Cursor only supports project-level rules for skills.''
             (say (''[yellow]'' @ asst @ ''[/yellow] skills -> skipped (user scope not supported)'') st1)
         else st1)"

text \<open>The skills part of \<^verbatim>\<open>install_to_assistant\<close> (lines 96-156).\<close>

definition install_skills ::
  "'fs env \<Rightarrow> module \<Rightarrow> string \<Rightarrow> string \<Rightarrow> string option \<Rightarrow> path \<Rightarrow> 'fs state \<Rightarrow> string list \<times> 'fs state" where
  "install_skills E m asst scp ppath local_module_path st =
     (if mod_skills m = [] then ([], st)
      else
        (let st1 = report_skipped asst scp st in
         if skills_skipped asst scp then ([], st1)
         else
           (case get_assistant_skill_path (home E) asst scp ppath of
              Inl e \<Rightarrow> ([], say (''[red]'' @ error_str e @ ''[/red]'') st1)
            | Inr skill_dest \<Rightarrow>
                (let st2 = say (''[bold]'' @ asst @ ''[/bold] skills -> '' @ skill_dest) st1 in
                 if asst = ''gemini-cli'' then
                   install_gemini_skills E m local_module_path skill_dest ppath st2
                 else
                   skill_files_loop E m asst local_module_path skill_dest ppath (mod_skills m) [] st2))))"

text \<open>The loop over \<^verbatim>\<open>module.commands\<close> (lines 170-184).\<close>

fun commands_loop ::
  "'fs env \<Rightarrow> module \<Rightarrow> string \<Rightarrow> path \<Rightarrow> path \<Rightarrow> string list \<Rightarrow>
   string list \<Rightarrow> 'fs state \<Rightarrow> string list \<times> 'fs state" where
  "commands_loop E m asst commands_dir command_dest [] installed_commands st =
     (installed_commands, st)"
| "commands_loop E m asst commands_dir command_dest (cmd_name # rest) installed_commands st =
     (let source = pjoin commands_dir (cmd_name @ ''.md'') in
      case (if asst = ''gemini-cli'' then
              generate_gemini_command E (fs st) source command_dest cmd_name (mod_name m)
            else if asst = ''cursor'' then
              generate_cursor_command E (fs st) source command_dest cmd_name (mod_name m)
            else generate_claude_command E (fs st) source command_dest cmd_name (mod_name m)) of
        (success, f') \<Rightarrow>
          if success then
            commands_loop E m asst commands_dir command_dest rest
              (installed_commands @ [cmd_name])
              (say (''  [green]/'' @ mod_name m @ ''-'' @ cmd_name @ ''[/green]'') (st\<lparr>fs := f'\<rparr>))
          else
            commands_loop E m asst commands_dir command_dest rest installed_commands
              (say (''  [red]'' @ cmd_name @ ''[/red] (source not found)'') (st\<lparr>fs := f'\<rparr>)))"

text \<open>The commands part of \<^verbatim>\<open>install_to_assistant\<close> (lines 158-184).\<close>

definition install_commands ::
  "'fs env \<Rightarrow> module \<Rightarrow> string \<Rightarrow> string \<Rightarrow> string option \<Rightarrow> path \<Rightarrow> 'fs state \<Rightarrow> string list \<times> 'fs state" where
  "install_commands E m asst scp ppath local_module_path st =
     (if mod_commands m = [] then ([], st)
      else
        (case get_assistant_command_path E asst scp ppath of
           Inl e \<Rightarrow> ([], say (''[red]Commands: '' @ error_str e @ ''[/red]'') st)
         | Inr command_dest \<Rightarrow>
             commands_loop E m asst (pjoin local_module_path ''commands'') command_dest
               (mod_commands m) []
               (say (''[bold]'' @ asst @ ''[/bold] commands -> '' @ command_dest) st)))"

text \<open>
  The record written at the end (lines 188-195) and the registration step
  (lines 186-196).
\<close>

definition new_installation ::
  "module \<Rightarrow> string \<Rightarrow> string \<Rightarrow> string option \<Rightarrow> string list \<Rightarrow> string list \<Rightarrow> installation" where
  "new_installation m asst scp ppath installed_skills installed_commands =
     \<lparr>module_name = mod_name m, assistant = asst, scope = scp, project_path = ppath,
      skills = installed_skills, commands = installed_commands\<rparr>"

definition record_installation ::
  "module \<Rightarrow> string \<Rightarrow> string \<Rightarrow> string option \<Rightarrow> string list \<Rightarrow> string list \<Rightarrow> 'fs state \<Rightarrow> 'fs state" where
  "record_installation m asst scp ppath installed_skills installed_commands st =
     (if installed_skills \<noteq> [] \<or> installed_commands \<noteq> [] then
        st\<lparr>registry :=
             registry_add (new_installation m asst scp ppath installed_skills installed_commands)
               (registry st)\<rparr>
      else st)"

text \<open>
  \<^verbatim>\<open>install_to_assistant(module, assistant, scope, project_path, local_modules, registry)\<close>
  (lines 68-198). The result is the returned count, or the exception that the copy of
  the module raised, and the state as it is left.
\<close>

definition install_to_assistant ::
  "'fs env \<Rightarrow> module \<Rightarrow> string \<Rightarrow> string \<Rightarrow> string option \<Rightarrow> path \<Rightarrow> 'fs state \<Rightarrow> (error + nat) \<times> 'fs state" where
  "install_to_assistant E m asst scp ppath local_modules st =
     (case copy_module_to_local E m local_modules (fs st) of
        (Inl e, f') \<Rightarrow> (Inl e, st\<lparr>fs := f'\<rparr>)
      | (Inr local_module_path, f') \<Rightarrow>
          (case install_skills E m asst scp ppath local_module_path (st\<lparr>fs := f'\<rparr>) of
             (installed_skills, st1) \<Rightarrow>
               (case install_commands E m asst scp ppath local_module_path st1 of
                  (installed_commands, st2) \<Rightarrow>
                    (Inr (length installed_skills + length installed_commands),
                     record_installation m asst scp ppath installed_skills installed_commands st2))))"

section \<open>Installed items by the results of the writes\<close>






section \<open>Text helpers\<close>

text \<open>A name between single quotes, as the f-strings of the messages write it.\<close>

definition sq :: "string \<Rightarrow> string" where
  "sq s = [CHR 0x27] @ s @ [CHR 0x27]"

text \<open>\<^verbatim>\<open>str(n)\<close> for a length.\<close>

fun str_nat :: "nat \<Rightarrow> string" where
  "str_nat n =
     (if n < 10 then [char_of (48 + n)]
      else str_nat (n div 10) @ [char_of (48 + n mod 10)])"

declare str_nat.simps [simp del]

text \<open>\<^verbatim>\<open>sep.join(xs)\<close>.\<close>

fun join_str :: "string \<Rightarrow> string list \<Rightarrow> string" where
  "join_str sep [] = []"
| "join_str sep [x] = x"
| "join_str sep (x # y # ys) = x @ sep @ join_str sep (y # ys)"

text \<open>Printing several lines in order.\<close>

definition say_all :: "string list \<Rightarrow> 'fs state \<Rightarrow> 'fs state" where
  "say_all ls st = st\<lparr>console := console st @ map Print ls\<rparr>"

section \<open>The install command (cli/install.py, lines 40-126)\<close>

text \<open>The loop over \<^verbatim>\<open>assistants_to_install\<close> (lines 119-124).\<close>

fun install_loop ::
  "'fs env \<Rightarrow> module \<Rightarrow> string \<Rightarrow> string option \<Rightarrow> path \<Rightarrow> string list \<Rightarrow> nat \<Rightarrow> 'fs state \<Rightarrow>
   (error + nat) \<times> 'fs state" where
  "install_loop E m scp ppath local_modules [] total_installed st = (Inr total_installed, st)"
| "install_loop E m scp ppath local_modules (asst # rest) total_installed st =
     (case install_to_assistant E m asst scp ppath local_modules st of
        (Inl e, st1) \<Rightarrow> (Inl e, st1)
      | (Inr n, st1) \<Rightarrow>
          install_loop E m scp ppath local_modules rest (total_installed + n) (say [] st1))"

text \<open>
  The last part of \<^verbatim>\<open>install_cmd\<close> (lines 102-126), once the module is loaded and
  valid: nothing to do for a module without items, else the loop over the assistants
  and the closing line.
\<close>

definition install_module ::
  "'fs env \<Rightarrow> string \<Rightarrow> module \<Rightarrow> string option \<Rightarrow> string \<Rightarrow> string option \<Rightarrow> 'fs state \<Rightarrow>
   error option \<times> 'fs state" where
  "install_module E mname m asst_opt scp ppath st =
     (if mod_skills m = [] \<and> mod_commands m = [] then
        (None,
         say (''[yellow]Module '' @ sq mname @ '' has no skills or commands defined[/yellow]'') st)
      else
        (let local_modules = get_local_modules_path E ppath;
             assistants_to_install =
               (if truthy asst_opt then [the asst_opt] else map fst (ASSISTANTS (home E)));
             st1 = say_all
               ([''[bold]Installing '' @ sq mname @ ''[/bold]'', ''  Scope: '' @ scp] @
                (if truthy ppath then [''  Project: '' @ the ppath] else []) @ [[]]) st
         in case install_loop E m scp ppath local_modules assistants_to_install 0 st1 of
              (Inl e, st2) \<Rightarrow> (Some e, st2)
            | (Inr total_installed, st2) \<Rightarrow>
                (None,
                 say (''[bold green]Installed to '' @ str_nat (length assistants_to_install) @
                      '' assistant(s)[/bold green]'') st2)))"

text \<open>
  \<^verbatim>\<open>install_cmd(module_name, assistant, scope, project_path)\<close>. \<^verbatim>\<open>SystemExit(1)\<close> is the
  error of every failed precondition (lines 67-100). For project scope the project
  path is replaced by its resolved form (line 76); for any other scope it is passed on
  as given.
\<close>

definition install_cmd ::
  "'fs env \<Rightarrow> string \<Rightarrow> string option \<Rightarrow> string \<Rightarrow> string option \<Rightarrow> 'fs state \<Rightarrow> error option \<times> 'fs state" where
  "install_cmd E mname asst_opt scp ppath0 st0 =
     (let st = st0\<lparr>fs := ensure_lola_dirs E (fs st0)\<rparr> in
      if scp = ''project'' \<and> \<not> truthy ppath0 then
        (Some (SystemExit 1),
         say_all [''[red]Project path required for project scope[/red]'',
                  ''Usage: lola install <module> -s project <path/to/project>''] st)
      else
        (let ppath = (if scp = ''project'' then Some (resolve E (fs st) (the ppath0)) else ppath0) in
         if scp = ''project'' \<and> \<not> path_exists E (fs st) (the ppath) then
           (Some (SystemExit 1),
            say (''[red]Project path does not exist: '' @ the ppath @ ''[/red]'') st)
         else
           (let module_path = pjoin (MODULES_DIR E) mname in
            if \<not> path_exists E (fs st) module_path then
              (Some (SystemExit 1),
               say_all [''[red]Module '' @ sq mname @ '' not found in registry[/red]'',
                        ''Use '' @ sq ''lola mod ls'' @ '' to see available modules'',
                        ''Use '' @ sq ''lola mod add <source>'' @ '' to add a module''] st)
            else
              (case module_from_path E (fs st) module_path of
                 None \<Rightarrow>
                   (Some (SystemExit 1),
                    say ''[red]Invalid module: no .lola/module.yml found[/red]'' st)
               | Some m \<Rightarrow>
                   (case module_validate E (fs st) m of
                      (is_valid, errors) \<Rightarrow>
                        if \<not> is_valid then
                          (Some (SystemExit 1),
                           say_all
                             ((''[red]Module '' @ sq mname @ '' has validation errors:[/red]'') #
                              map (\<lambda>err. ''  [red]- '' @ err @ ''[/red]'') errors) st)
                        else install_module E mname m asst_opt scp ppath st)))))"

section \<open>The uninstall command (cli/install.py, lines 129-277)\<close>

text \<open>The listing of one matching installation (lines 189-196).\<close>

definition show_installation :: "installation \<Rightarrow> string list" where
  "show_installation inst =
     [''  - '' @ assistant inst @ '' ('' @ scope inst @ '')''] @
     (if truthy (project_path inst) then [''    Project: '' @ the (project_path inst)] else []) @
     (if skills inst \<noteq> [] then [''    Skills: '' @ join_str '', '' (skills inst)] else []) @
     (if commands inst \<noteq> [] then [''    Commands: '' @ join_str '', '' (commands inst)] else [])"

text \<open>
  Removing the rule files of cursor (lines 227-231) and the skill directories of
  claude-code (lines 234-238): each removal is behind \<^verbatim>\<open>exists()\<close>. A removal that
  raises ends the loop with its exception.
\<close>

fun remove_cursor_rules :: "'fs env \<Rightarrow> path \<Rightarrow> string list \<Rightarrow> 'fs state \<Rightarrow> error option \<times> 'fs state" where
  "remove_cursor_rules E skill_dest [] st = (None, st)"
| "remove_cursor_rules E skill_dest (skill_name # rest) st =
     (let mdc_file = pjoin skill_dest (skill_name @ ''.mdc'') in
      if path_exists E (fs st) mdc_file then
        (case unlink E (fs st) mdc_file of
           (Some e, f') \<Rightarrow> (Some e, st\<lparr>fs := f'\<rparr>)
         | (None, f') \<Rightarrow>
             remove_cursor_rules E skill_dest rest
               (say (''[green]Removed: '' @ mdc_file @ ''[/green]'') (st\<lparr>fs := f'\<rparr>)))
      else remove_cursor_rules E skill_dest rest st)"

fun remove_skill_dirs :: "'fs env \<Rightarrow> path \<Rightarrow> string list \<Rightarrow> 'fs state \<Rightarrow> error option \<times> 'fs state" where
  "remove_skill_dirs E skill_dest [] st = (None, st)"
| "remove_skill_dirs E skill_dest (skill_name # rest) st =
     (let skill_dir = pjoin skill_dest skill_name in
      if path_exists E (fs st) skill_dir then
        (case rmtree E (fs st) skill_dir of
           (Some e, f') \<Rightarrow> (Some e, st\<lparr>fs := f'\<rparr>)
         | (None, f') \<Rightarrow>
             remove_skill_dirs E skill_dest rest
               (say (''[green]Removed: '' @ skill_dir @ ''[/green]'') (st\<lparr>fs := f'\<rparr>)))
      else remove_skill_dirs E skill_dest rest st)"

text \<open>The skills part of one uninstallation (lines 212-238).\<close>

definition uninstall_skills :: "'fs env \<Rightarrow> string \<Rightarrow> installation \<Rightarrow> 'fs state \<Rightarrow> error option \<times> 'fs state" where
  "uninstall_skills E mname inst st =
     (if skills inst = [] then (None, st)
      else
        (case get_assistant_skill_path (home E) (assistant inst) (scope inst) (project_path inst) of
           Inl e \<Rightarrow>
             (None,
              say (''[red]Cannot determine skill path for '' @ assistant inst @ ''/'' @
                   scope inst @ ''[/red]'') st)
         | Inr skill_dest \<Rightarrow>
             if assistant inst = ''gemini-cli'' then
               (case remove_gemini_skills E (fs st) skill_dest mname of
                  (removed, f') \<Rightarrow>
                    (None,
                     if removed then
                       say (''[green]Removed skills from: '' @ skill_dest @ ''[/green]'')
                         (st\<lparr>fs := f'\<rparr>)
                     else st\<lparr>fs := f'\<rparr>))
             else if assistant inst = ''cursor'' then
               remove_cursor_rules E skill_dest (skills inst) st
             else remove_skill_dirs E skill_dest (skills inst) st))"

text \<open>The command files (lines 249-254).\<close>

fun remove_command_files ::
  "'fs env \<Rightarrow> string \<Rightarrow> string \<Rightarrow> path \<Rightarrow> string list \<Rightarrow> 'fs state \<Rightarrow> error option \<times> 'fs state" where
  "remove_command_files E mname asst command_dest [] st = (None, st)"
| "remove_command_files E mname asst command_dest (cmd_name # rest) st =
     (let filename = get_command_filename E asst mname cmd_name;
          cmd_file = pjoin command_dest filename
      in if path_exists E (fs st) cmd_file then
           (case unlink E (fs st) cmd_file of
              (Some e, f') \<Rightarrow> (Some e, st\<lparr>fs := f'\<rparr>)
            | (None, f') \<Rightarrow>
                remove_command_files E mname asst command_dest rest
                  (say (''[green]Removed: '' @ cmd_file @ ''[/green]'') (st\<lparr>fs := f'\<rparr>)))
         else remove_command_files E mname asst command_dest rest st)"

text \<open>The commands part of one uninstallation (lines 240-254).\<close>

definition uninstall_commands :: "'fs env \<Rightarrow> string \<Rightarrow> installation \<Rightarrow> 'fs state \<Rightarrow> error option \<times> 'fs state" where
  "uninstall_commands E mname inst st =
     (if commands inst = [] then (None, st)
      else
        (case get_assistant_command_path E (assistant inst) (scope inst) (project_path inst) of
           Inl e \<Rightarrow>
             (None,
              say (''[red]Cannot determine command path for '' @ assistant inst @ ''/'' @
                   scope inst @ ''[/red]'') st)
         | Inr command_dest \<Rightarrow>
             remove_command_files E mname (assistant inst) command_dest (commands inst) st))"

text \<open>The project-local copy of the module (lines 256-266).\<close>

definition remove_local_copy :: "'fs env \<Rightarrow> string \<Rightarrow> installation \<Rightarrow> 'fs state \<Rightarrow> error option \<times> 'fs state" where
  "remove_local_copy E mname inst st =
     (if scope inst = ''project'' \<and> truthy (project_path inst) then
        (let local_modules = get_local_modules_path E (project_path inst);
             source_module = pjoin local_modules mname
         in if is_symlink E (fs st) source_module then
              (case unlink E (fs st) source_module of
                 (Some e, f') \<Rightarrow> (Some e, st\<lparr>fs := f'\<rparr>)
               | (None, f') \<Rightarrow>
                   (None,
                    say (''[green]Removed symlink: '' @ source_module @ ''[/green]'')
                      (st\<lparr>fs := f'\<rparr>)))
            else if path_exists E (fs st) source_module then
              (case rmtree E (fs st) source_module of
                 (Some e, f') \<Rightarrow> (Some e, st\<lparr>fs := f'\<rparr>)
               | (None, f') \<Rightarrow>
                   (None,
                    say (''[green]Removed: '' @ source_module @ ''[/green]'') (st\<lparr>fs := f'\<rparr>)))
            else (None, st))
      else (None, st))"

text \<open>
  The body of the loop \<^verbatim>\<open>for inst in installations\<close> (lines 211-274): skills, commands,
  local copy, then the registry record.
\<close>

definition uninstall_one :: "'fs env \<Rightarrow> string \<Rightarrow> installation \<Rightarrow> 'fs state \<Rightarrow> error option \<times> 'fs state" where
  "uninstall_one E mname inst st =
     (case uninstall_skills E mname inst st of
        (Some e, st1) \<Rightarrow> (Some e, st1)
      | (None, st1) \<Rightarrow>
          (case uninstall_commands E mname inst st1 of
             (Some e, st2) \<Rightarrow> (Some e, st2)
           | (None, st2) \<Rightarrow>
               (case remove_local_copy E mname inst st2 of
                  (Some e, st3) \<Rightarrow> (Some e, st3)
                | (None, st3) \<Rightarrow>
                    (None,
                     st3\<lparr>registry :=
                           registry_remove (registry st3) mname (assistant inst) (scope inst)
                             (project_path inst)\<rparr>))))"

fun uninstall_loop :: "'fs env \<Rightarrow> string \<Rightarrow> installation list \<Rightarrow> 'fs state \<Rightarrow> error option \<times> 'fs state" where
  "uninstall_loop E mname [] st = (None, st)"
| "uninstall_loop E mname (inst # rest) st =
     (case uninstall_one E mname inst st of
        (Some e, st1) \<Rightarrow> (Some e, st1)
      | (None, st1) \<Rightarrow> uninstall_loop E mname rest st1)"

text \<open>The filters of lines 172-179, on the records found for the module.\<close>

definition matching_installations ::
  "'fs env \<Rightarrow> 'fs \<Rightarrow> string option \<Rightarrow> string option \<Rightarrow> string option \<Rightarrow> installation list \<Rightarrow> installation list" where
  "matching_installations E f asst_opt scp_opt ppath_opt installations =
     (let i1 = (if truthy asst_opt then filter (\<lambda>i. assistant i = the asst_opt) installations
                else installations);
          i2 = (if truthy scp_opt then filter (\<lambda>i. scope i = the scp_opt) i1 else i1)
      in if truthy ppath_opt then
           filter (\<lambda>i. project_path i = Some (resolve E f (the ppath_opt))) i2
         else i2)"

text \<open>The test of line 201: several installations and no \<^verbatim>\<open>--force\<close>.\<close>

definition confirm_needed :: "installation list \<Rightarrow> bool \<Rightarrow> bool" where
  "confirm_needed installations force = (1 < length installations \<and> \<not> force)"

text \<open>
  The second half of \<^verbatim>\<open>uninstall_cmd\<close> (lines 185-277), on the matching installations:
  the listing, the confirmation, the removals. The answer to
  \<^verbatim>\<open>click.confirm("Uninstall all?")\<close> is the environment's \<open>confirm\<close>; the prompt is
  recorded on the console.
\<close>

definition uninstall_matching ::
  "'fs env \<Rightarrow> string \<Rightarrow> bool \<Rightarrow> installation list \<Rightarrow> 'fs state \<Rightarrow> error option \<times> 'fs state" where
  "uninstall_matching E mname force installations st =
     (let st1 = say_all
            ([''[bold]Found '' @ str_nat (length installations) @
              '' installation(s) of '' @ sq mname @ '':[/bold]'', []] @
             concat (map show_installation installations) @ [[]]) st;
          st2 = (if confirm_needed installations force then
                   st1\<lparr>console :=
                         console st1 @
                         [Print ''[yellow]Multiple installations found.[/yellow]'',
                          Print ''Use -a <assistant> and -s <scope> to target specific installation,'',
                          Print ''or use -f/--force to uninstall all.'',
                          Prompt ''Uninstall all?'']\<rparr>
                 else st1)
      in if confirm_needed installations force \<and> \<not> confirm E ''Uninstall all?'' then
           (None, say ''[yellow]Cancelled[/yellow]'' st2)
         else
           (case uninstall_loop E mname installations st2 of
              (Some e, st3) \<Rightarrow> (Some e, st3)
            | (None, st3) \<Rightarrow>
                (None,
                 say_all [[], ''[bold green]Uninstalled '' @ sq mname @ ''[/bold green]''] st3)))"

text \<open>
  \<^verbatim>\<open>uninstall_cmd(module_name, assistant, scope, project_path, force)\<close>: the records of
  the module, filtered (lines 163-183), then the part above.
\<close>

definition uninstall_cmd ::
  "'fs env \<Rightarrow> string \<Rightarrow> string option \<Rightarrow> string option \<Rightarrow> string option \<Rightarrow> bool \<Rightarrow> 'fs state \<Rightarrow>
   error option \<times> 'fs state" where
  "uninstall_cmd E mname asst_opt scp_opt ppath_opt force st0 =
     (let st = st0\<lparr>fs := ensure_lola_dirs E (fs st0)\<rparr>;
          found = registry_find (registry st) mname
      in if found = [] then
           (None, say (''[yellow]No installations found for '' @ sq mname @ ''[/yellow]'') st)
         else
           (let installations = matching_installations E (fs st) asst_opt scp_opt ppath_opt found in
            if installations = [] then
              (None, say ''[yellow]No matching installations found[/yellow]'' st)
            else uninstall_matching E mname force installations st))"

text \<open>The questions asked on a console, in order.\<close>

definition prompts :: "out list \<Rightarrow> string list" where
  "prompts outs = concat (map (\<lambda>x. case x of Prompt q \<Rightarrow> [q] | Print l \<Rightarrow> []) outs)"

section \<open>The update command (cli/install.py, lines 280-445)\<close>

text \<open>
  The gemini-cli loop of the update (lines 377-392). It only reads the filesystem.
\<close>

fun update_gemini_loop ::
  "'fs env \<Rightarrow> installation \<Rightarrow> path \<Rightarrow> string list \<Rightarrow> (string \<times> string \<times> path) list \<Rightarrow> 'fs state \<Rightarrow>
   (string \<times> string \<times> path) list \<times> 'fs state" where
  "update_gemini_loop E inst source_module [] gemini_skills st = (gemini_skills, st)"
| "update_gemini_loop E inst source_module (prefixed_skill # rest) gemini_skills st =
     (let orig = original_skill (module_name inst) prefixed_skill;
          source = pjoin source_module orig
      in if path_exists E (fs st) source then
           update_gemini_loop E inst source_module rest
             (gemini_skills @ [(orig, get_skill_description E (fs st) source, source)])
             (say (''  [green]'' @ prefixed_skill @ ''[/green]'') st)
         else
           update_gemini_loop E inst source_module rest gemini_skills
             (say (''  [red]'' @ orig @ ''[/red] (source not found)'') st))"

text \<open>The claude-code and cursor loop of the update (lines 396-415).\<close>

fun update_skill_files_loop ::
  "'fs env \<Rightarrow> installation \<Rightarrow> path \<Rightarrow> path \<Rightarrow> string list \<Rightarrow> 'fs state \<Rightarrow> 'fs state" where
  "update_skill_files_loop E inst source_module skill_dest [] st = st"
| "update_skill_files_loop E inst source_module skill_dest (prefixed_skill # rest) st =
     (let orig = original_skill (module_name inst) prefixed_skill;
          source = pjoin source_module orig
      in case (if assistant inst = ''cursor'' then
                 generate_cursor_rule E (fs st) source skill_dest prefixed_skill (project_path inst)
               else generate_claude_skill E (fs st) source (pjoin skill_dest prefixed_skill)) of
           (success, f') \<Rightarrow>
             update_skill_files_loop E inst source_module skill_dest rest
               (say (if success then ''  [green]'' @ prefixed_skill @ ''[/green]''
                     else ''  [red]'' @ orig @ ''[/red] (source not found)'') (st\<lparr>fs := f'\<rparr>)))"

text \<open>The skills part of one update (lines 366-415).\<close>

definition update_skills :: "'fs env \<Rightarrow> installation \<Rightarrow> path \<Rightarrow> 'fs state \<Rightarrow> 'fs state" where
  "update_skills E inst source_module st =
     (if skills inst = [] then st
      else
        (case get_assistant_skill_path (home E) (assistant inst) (scope inst) (project_path inst) of
           Inl e \<Rightarrow> say ''  [red]Cannot determine skill path[/red]'' st
         | Inr skill_dest \<Rightarrow>
             if assistant inst = ''gemini-cli'' then
               (case update_gemini_loop E inst source_module (skills inst) [] st of
                  (gemini_skills, st1) \<Rightarrow>
                    if gemini_skills \<noteq> [] then
                      st1\<lparr>fs := snd (update_gemini_md E (fs st1) skill_dest (module_name inst)
                                        gemini_skills (project_path inst))\<rparr>
                    else st1)
             else update_skill_files_loop E inst source_module skill_dest (skills inst) st))"

text \<open>The commands loop of the update (lines 427-440).\<close>

fun update_commands_loop ::
  "'fs env \<Rightarrow> installation \<Rightarrow> path \<Rightarrow> path \<Rightarrow> string list \<Rightarrow> 'fs state \<Rightarrow> 'fs state" where
  "update_commands_loop E inst commands_dir command_dest [] st = st"
| "update_commands_loop E inst commands_dir command_dest (cmd_name # rest) st =
     (let source = pjoin commands_dir (cmd_name @ ''.md'') in
      case (if assistant inst = ''gemini-cli'' then
              generate_gemini_command E (fs st) source command_dest cmd_name (module_name inst)
            else if assistant inst = ''cursor'' then
              generate_cursor_command E (fs st) source command_dest cmd_name (module_name inst)
            else generate_claude_command E (fs st) source command_dest cmd_name (module_name inst)) of
        (success, f') \<Rightarrow>
          update_commands_loop E inst commands_dir command_dest rest
            (say (if success then ''  [green]/'' @ module_name inst @ ''-'' @ cmd_name @ ''[/green]''
                  else ''  [red]'' @ cmd_name @ ''[/red] (source not found)'') (st\<lparr>fs := f'\<rparr>)))"

text \<open>The commands part of one update (lines 417-440).\<close>

definition update_commands :: "'fs env \<Rightarrow> installation \<Rightarrow> path \<Rightarrow> 'fs state \<Rightarrow> 'fs state" where
  "update_commands E inst source_module st =
     (if commands inst = [] then st
      else
        (case get_assistant_command_path E (assistant inst) (scope inst) (project_path inst) of
           Inl e \<Rightarrow> say ''  [red]Cannot determine command path[/red]'' st
         | Inr command_dest \<Rightarrow>
             update_commands_loop E inst (pjoin source_module ''commands'') command_dest
               (commands inst) st))"

text \<open>The test of lines 323-324: a project-scope record whose project path is gone.\<close>

definition is_stale :: "'fs env \<Rightarrow> 'fs \<Rightarrow> installation \<Rightarrow> bool" where
  "is_stale E f inst =
     (scope inst = ''project'' \<and> truthy (project_path inst) \<and>
      \<not> path_exists E f (the (project_path inst)))"

text \<open>
  The body of the loop \<^verbatim>\<open>for inst in installations\<close> (lines 321-440), on the list
  \<^verbatim>\<open>stale_installations\<close> and the state. Every \<^verbatim>\<open>continue\<close> is a branch that returns.
\<close>

definition update_one ::
  "'fs env \<Rightarrow> installation \<Rightarrow> installation list \<times> 'fs state \<Rightarrow>
   error option \<times> installation list \<times> 'fs state" where
  "update_one E inst acc =
     (case acc of (stale_installations, st) \<Rightarrow>
      if is_stale E (fs st) inst then
        (None, stale_installations @ [inst],
         say_all [''[red]'' @ module_name inst @ ''[/red] ('' @ assistant inst @ '')'',
                  ''  [red]Project path no longer exists: '' @ the (project_path inst) @ ''[/red]'',
                  ''  [dim]Run '' @ sq (''lola uninstall '' @ module_name inst) @
                  '' to remove this stale entry[/dim]''] st)
      else
        (let global_module_path = pjoin (MODULES_DIR E) (module_name inst) in
         if \<not> path_exists E (fs st) global_module_path then
           (None, stale_installations,
            say_all [''[red]'' @ module_name inst @ '': not found in registry[/red]'',
                     ''  [dim]Run '' @ sq ''lola mod add <source>'' @ '' to re-add, or '' @
                     sq (''lola uninstall '' @ module_name inst) @ '' to remove[/dim]''] st)
         else
           (case module_from_path E (fs st) global_module_path of
              None \<Rightarrow>
                (None, stale_installations,
                 say (''[red]'' @ module_name inst @
                      '': invalid module (no .lola/module.yml)[/red]'') st)
            | Some global_module \<Rightarrow>
                (case module_validate E (fs st) global_module of
                   (is_valid, errors) \<Rightarrow>
                     if \<not> is_valid then
                       (None, stale_installations,
                        say_all
                          ([''[red]'' @ module_name inst @ ''[/red] ('' @ assistant inst @ '')'',
                            ''  [red]Module has validation errors:[/red]''] @
                           map (\<lambda>err. ''    [red]- '' @ err @ ''[/red]'') errors) st)
                     else
                       (case copy_module_to_local E global_module
                               (get_local_modules_path E (project_path inst)) (fs st) of
                          (Inl e, f') \<Rightarrow> (Some e, stale_installations, st\<lparr>fs := f'\<rparr>)
                        | (Inr source_module, f') \<Rightarrow>
                            (case get_assistant_skill_path (home E) (assistant inst) (scope inst)
                                    (project_path inst) of
                               Inl e \<Rightarrow>
                                 (None, stale_installations,
                                  say (''[red]Cannot determine path for '' @ assistant inst @
                                       ''/'' @ scope inst @ ''[/red]'') (st\<lparr>fs := f'\<rparr>))
                             | Inr skill_dest \<Rightarrow>
                                 (None, stale_installations,
                                  update_commands E inst source_module
                                    (update_skills E inst source_module
                                       (say_all
                                          [''[cyan]'' @ module_name inst @ ''[/cyan] -> '' @
                                           assistant inst,
                                           ''  [dim]Local path: '' @ source_module @ ''[/dim]'']
                                          (st\<lparr>fs := f'\<rparr>))))))))))"

text \<open>The three lines printed for a stale record (lines 325-327).\<close>

definition stale_lines :: "installation \<Rightarrow> out list" where
  "stale_lines inst =
     [Print (''[red]'' @ module_name inst @ ''[/red] ('' @ assistant inst @ '')''),
      Print (''  [red]Project path no longer exists: '' @ the (project_path inst) @ ''[/red]''),
      Print (''  [dim]Run '' @ sq (''lola uninstall '' @ module_name inst) @
             '' to remove this stale entry[/dim]'')]"

fun update_loop ::
  "'fs env \<Rightarrow> installation list \<Rightarrow> installation list \<times> 'fs state \<Rightarrow>
   error option \<times> installation list \<times> 'fs state" where
  "update_loop E [] acc = (None, acc)"
| "update_loop E (inst # rest) acc =
     (case update_one E inst acc of
        (Some e, acc1) \<Rightarrow> (Some e, acc1)
      | (None, acc1) \<Rightarrow> update_loop E rest acc1)"




section \<open>A concrete environment\<close>

text \<open>
  A small environment on which the model can be run: the filesystem is the list of the
  paths that exist, there are no symbolic links, a generator succeeds exactly when its
  source exists and then creates its artifact, and removing a path that does not exist
  raises. Its arguments are the modules found in the store and the answer given to a
  confirmation prompt.
\<close>

definition below :: "path \<Rightarrow> path \<Rightarrow> bool" where
  "below p q = (q = p \<or> startswith q (p @ ''/''))"

definition demo_write :: "path \<Rightarrow> path \<Rightarrow> path list \<Rightarrow> bool \<times> path list" where
  "demo_write source artifact f =
     (if source \<in> set f then (True, List.insert artifact f) else (False, f))"

definition demo_filename :: "string \<Rightarrow> string \<Rightarrow> string \<Rightarrow> string" where
  "demo_filename asst mname cmd_name =
     mname @ ''-'' @ cmd_name @ (if asst = ''gemini-cli'' then ''.toml'' else ''.md'')"

definition demo_env :: "module list \<Rightarrow> bool \<Rightarrow> path list env" where
  "demo_env mods answer =
     \<lparr>path_exists = (\<lambda>f p. p \<in> set f),
      is_symlink = (\<lambda>f p. False),
      resolve = (\<lambda>f p. p),
      mkdir_parents = (\<lambda>f p. (None, List.insert p f)),
      unlink = (\<lambda>f p. if p \<in> set f then (None, removeAll p f)
                       else (Some (OSError ''FileNotFoundError''), f)),
      rmtree = (\<lambda>f p. if p \<in> set f then (None, filter (\<lambda>q. \<not> below p q) f)
                       else (Some (OSError ''FileNotFoundError''), f)),
      copytree = (\<lambda>f src dst.
                    if src \<notin> set f then (Some (OSError ''FileNotFoundError''), f)
                    else if dst \<in> set f then (Some (OSError ''FileExistsError''), f)
                    else (None, f @ map (\<lambda>q. dst @ drop (length src) q) (filter (below src) f))),
      home = ''/home/u'',
      MODULES_DIR = ''/home/u/.lola/modules'',
      command_location = (\<lambda>asst scp ppath.
                            if scp = ''project'' \<and> truthy ppath
                            then pjoin (pjoin (the ppath) asst) ''commands''
                            else pjoin (pjoin ''/home/u'' asst) ''commands''),
      generate_claude_skill = (\<lambda>f source dest. demo_write source dest f),
      generate_cursor_rule = (\<lambda>f source dest_dir rule_name ppath.
                                demo_write source (pjoin dest_dir (rule_name @ ''.mdc'')) f),
      generate_claude_command = (\<lambda>f source dest_dir cmd_name mname.
                                   demo_write source (pjoin dest_dir (demo_filename ''claude-code'' mname cmd_name)) f),
      generate_cursor_command = (\<lambda>f source dest_dir cmd_name mname.
                                   demo_write source (pjoin dest_dir (demo_filename ''cursor'' mname cmd_name)) f),
      generate_gemini_command = (\<lambda>f source dest_dir cmd_name mname.
                                   demo_write source (pjoin dest_dir (demo_filename ''gemini-cli'' mname cmd_name)) f),
      get_skill_description = (\<lambda>f source. ''description''),
      update_gemini_md = (\<lambda>f gemini_file mname gemini_skills ppath.
                            (True, List.insert gemini_file f)),
      remove_gemini_skills = (\<lambda>f gemini_file mname. (gemini_file \<in> set f, f)),
      get_command_filename = demo_filename,
      get_local_modules_path = (\<lambda>ppath.
                                  if truthy ppath then pjoin (pjoin (the ppath) ''.lola'') ''modules''
                                  else ''/home/u/.lola/modules''),
      ensure_lola_dirs = (\<lambda>f. f),
      module_from_path = (\<lambda>f p. find (\<lambda>m. mod_path m = p) mods),
      module_validate = (\<lambda>f m. (True, [])),
      confirm = (\<lambda>question. answer)\<rparr>"

text \<open>
  The module of the scenarios of the specification: \<open>docgen\<close> with the one skill
  \<open>summarize\<close>, without and with the command \<open>draft\<close>; and a store that holds it.
\<close>

definition docgen :: module where
  "docgen = \<lparr>mod_name = ''docgen'', mod_path = ''/home/u/.lola/modules/docgen'',
            mod_skills = [''summarize''], mod_commands = []\<rparr>"

definition docgen_draft :: module where
  "docgen_draft = docgen\<lparr>mod_commands := [''draft'']\<rparr>"

definition demo_fs :: "path list" where
  "demo_fs = [''/home/u/.lola/modules/docgen'', ''/home/u/.lola/modules/docgen/summarize'',
              ''/home/u/.lola/modules/docgen/commands'',
              ''/home/u/.lola/modules/docgen/commands/draft.md'', ''/tmp/proj'']"

definition demo_state :: "installation list \<Rightarrow> path list state" where
  "demo_state reg = \<lparr>fs = demo_fs, registry = reg, console = []\<rparr>"



text \<open>A registry with two installations of the module, to two assistants.\<close>

definition two_records :: "installation list" where
  "two_records =
     [\<lparr>module_name = ''docgen'', assistant = ''claude-code'', scope = ''user'',
       project_path = None, skills = [''docgen-summarize''], commands = []\<rparr>,
      \<lparr>module_name = ''docgen'', assistant = ''gemini-cli'', scope = ''project'',
       project_path = Some ''/tmp/proj'', skills = [''docgen-summarize''], commands = []\<rparr>]"

text \<open>
  Two variations of the environment: one whose \<open>update_gemini_md\<close> reports failure and
  writes nothing, and one whose \<open>copytree\<close> raises (a project directory that cannot be
  written).
\<close>

definition gemini_fail_env :: "path list env" where
  "gemini_fail_env =
     (demo_env [docgen] True)
       \<lparr>update_gemini_md := (\<lambda>f gemini_file mname gemini_skills ppath. (False, f))\<rparr>"

definition copy_fail_env :: "path list env" where
  "copy_fail_env =
     (demo_env [docgen] True)
       \<lparr>copytree := (\<lambda>f src dst. (Some (OSError ''PermissionError''), f))\<rparr>"


section \<open>Properties\<close>

lemma startswith_append: "startswith (p @ s) p"
  by (simp add: startswith_def)

text \<open>
  Claim C4. Stripping the exact leading \<open>m + "-"\<close> from \<open>m + "-" + i\<close> gives back \<open>i\<close>,
  for every module name and every item name (in particular for those item names that
  do not contain \<open>m + "-"\<close>); and a name that does not start with \<open>m + "-"\<close> is returned
  unchanged.
\<close>

theorem unprefix_roundtrip:
  "original_skill m (prefixed_name m i) = i \<and>
   (\<not> startswith n (m @ ''-'') \<longrightarrow> original_skill m n = n)"
proof -
  have "startswith (prefixed_name m i) (m @ ''-'')"
    using startswith_append [of "m @ ''-''" i] by (simp add: prefixed_name_def)
  then have "original_skill m (prefixed_name m i) = i"
    by (simp add: original_skill_def prefixed_name_def)
  moreover have "\<not> startswith n (m @ ''-'') \<longrightarrow> original_skill m n = n"
    by (simp add: original_skill_def)
  ultimately show ?thesis by simp
qed

theorem unprefix_roundtrip_witness:
  "original_skill ''docgen'' (prefixed_name ''docgen'' ''summarize'') = ''summarize'' \<and>
   \<not> startswith ''summarize'' (''docgen'' @ ''-'') \<and>
   original_skill ''docgen'' ''summarize'' = ''summarize''"
  using unprefix_roundtrip [of "''docgen''" "''summarize''" "''summarize''"]
  by (simp add: startswith_def)

subsection \<open>Frame lemmas\<close>

lemma say_simps [simp]:
  "fs (say l st) = fs st" "registry (say l st) = registry st"
  "console (say l st) = console st @ [Print l]"
  by (simp_all add: say_def)

lemma say_all_simps [simp]:
  "fs (say_all ls st) = fs st" "registry (say_all ls st) = registry st"
  "console (say_all ls st) = console st @ map Print ls"
  by (simp_all add: say_all_def)

lemma demo_env_simps [simp]:
  "path_exists (demo_env mods a) = (\<lambda>f p. p \<in> set f)"
  "is_symlink (demo_env mods a) = (\<lambda>f p. False)"
  "resolve (demo_env mods a) = (\<lambda>f p. p)"
  "mkdir_parents (demo_env mods a) = (\<lambda>f p. (None, List.insert p f))"
  "unlink (demo_env mods a) =
     (\<lambda>f p. if p \<in> set f then (None, removeAll p f) else (Some (OSError ''FileNotFoundError''), f))"
  "rmtree (demo_env mods a) =
     (\<lambda>f p. if p \<in> set f then (None, filter (\<lambda>q. \<not> below p q) f)
             else (Some (OSError ''FileNotFoundError''), f))"
  "copytree (demo_env mods a) =
     (\<lambda>f src dst.
        if src \<notin> set f then (Some (OSError ''FileNotFoundError''), f)
        else if dst \<in> set f then (Some (OSError ''FileExistsError''), f)
        else (None, f @ map (\<lambda>q. dst @ drop (length src) q) (filter (below src) f)))"
  "home (demo_env mods a) = ''/home/u''"
  "MODULES_DIR (demo_env mods a) = ''/home/u/.lola/modules''"
  "command_location (demo_env mods a) =
     (\<lambda>asst scp ppath.
        if scp = ''project'' \<and> truthy ppath then pjoin (pjoin (the ppath) asst) ''commands''
        else pjoin (pjoin ''/home/u'' asst) ''commands'')"
  "generate_claude_skill (demo_env mods a) = (\<lambda>f source dest. demo_write source dest f)"
  "generate_cursor_rule (demo_env mods a) =
     (\<lambda>f source dest_dir rule_name ppath. demo_write source (pjoin dest_dir (rule_name @ ''.mdc'')) f)"
  "generate_claude_command (demo_env mods a) =
     (\<lambda>f source dest_dir cmd_name mname.
        demo_write source (pjoin dest_dir (demo_filename ''claude-code'' mname cmd_name)) f)"
  "generate_cursor_command (demo_env mods a) =
     (\<lambda>f source dest_dir cmd_name mname.
        demo_write source (pjoin dest_dir (demo_filename ''cursor'' mname cmd_name)) f)"
  "generate_gemini_command (demo_env mods a) =
     (\<lambda>f source dest_dir cmd_name mname.
        demo_write source (pjoin dest_dir (demo_filename ''gemini-cli'' mname cmd_name)) f)"
  "get_skill_description (demo_env mods a) = (\<lambda>f source. ''description'')"
  "update_gemini_md (demo_env mods a) =
     (\<lambda>f gemini_file mname gemini_skills ppath. (True, List.insert gemini_file f))"
  "remove_gemini_skills (demo_env mods a) = (\<lambda>f gemini_file mname. (gemini_file \<in> set f, f))"
  "get_command_filename (demo_env mods a) = demo_filename"
  "get_local_modules_path (demo_env mods a) =
     (\<lambda>ppath. if truthy ppath then pjoin (pjoin (the ppath) ''.lola'') ''modules''
               else ''/home/u/.lola/modules'')"
  "ensure_lola_dirs (demo_env mods a) = (\<lambda>f. f)"
  "module_from_path (demo_env mods a) = (\<lambda>f p. find (\<lambda>m. mod_path m = p) mods)"
  "module_validate (demo_env mods a) = (\<lambda>f m. (True, []))"
  "confirm (demo_env mods a) = (\<lambda>question. a)"
  by (simp_all add: demo_env_def)

lemma gemini_skills_loop_frame:
  "gemini_skills_loop E m lmp xs gs acc st = (gs', acc', st') \<Longrightarrow>
   fs st' = fs st \<and> registry st' = registry st"
  by (induction xs arbitrary: gs acc st) (auto simp: Let_def split: if_splits)

lemma skill_files_loop_registry:
  "skill_files_loop E m asst lmp dest pp xs acc st = (acc', st') \<Longrightarrow> registry st' = registry st"
  by (induction xs arbitrary: acc st) (auto simp: Let_def split: if_splits prod.splits)

lemma commands_loop_registry:
  "commands_loop E m asst cdir dest xs acc st = (acc', st') \<Longrightarrow> registry st' = registry st"
  by (induction xs arbitrary: acc st) (auto simp: Let_def split: if_splits prod.splits)

lemma report_skipped_frame [simp]:
  "fs (report_skipped asst scp st) = fs st" "registry (report_skipped asst scp st) = registry st"
  by (simp_all add: report_skipped_def Let_def)

lemma install_skills_registry:
  "install_skills E m asst scp pp lmp st = (sk, st') \<Longrightarrow> registry st' = registry st"
  by (auto simp: install_skills_def install_gemini_skills_def Let_def
      split: if_splits sum.splits prod.splits
      dest: gemini_skills_loop_frame skill_files_loop_registry)

lemma install_commands_registry:
  "install_commands E m asst scp pp lmp st = (cm, st') \<Longrightarrow> registry st' = registry st"
  by (auto simp: install_commands_def split: if_splits sum.splits dest: commands_loop_registry)

lemma install_to_assistant_registry:
  assumes "install_to_assistant E m asst scp pp lm st = (r, st')"
  shows "registry st' = registry st \<or>
         (\<exists>sk cm. (sk \<noteq> [] \<or> cm \<noteq> []) \<and>
            registry st' = registry_add (new_installation m asst scp pp sk cm) (registry st))"
proof (cases "copy_module_to_local E m lm (fs st)")
  case (Pair c f')
  show ?thesis
  proof (cases c)
    case (Inl e)
    with Pair assms show ?thesis by (auto simp: install_to_assistant_def)
  next
    case (Inr lmp)
    obtain sk st1 where sk: "install_skills E m asst scp pp lmp (st\<lparr>fs := f'\<rparr>) = (sk, st1)"
      by (cases "install_skills E m asst scp pp lmp (st\<lparr>fs := f'\<rparr>)")
    obtain cm st2 where cm: "install_commands E m asst scp pp lmp st1 = (cm, st2)"
      by (cases "install_commands E m asst scp pp lmp st1")
    have reg: "registry st2 = registry st"
      using install_skills_registry [OF sk] install_commands_registry [OF cm] by simp
    have st': "st' = record_installation m asst scp pp sk cm st2"
      using assms Pair Inr sk cm by (simp_all add: install_to_assistant_def)
    show ?thesis
    proof (cases "sk = [] \<and> cm = []")
      case True
      with st' reg show ?thesis by (simp add: record_installation_def)
    next
      case False
      then have "registry st' = registry_add (new_installation m asst scp pp sk cm) (registry st)"
        using st' reg by (auto simp: record_installation_def)
      with False show ?thesis by blast
    qed
  qed
qed

subsection \<open>Copying a module onto itself\<close>

text \<open>
  Claim C9. If \<open>local_modules_path / module.name\<close> resolves to the same path as
  \<open>module.path\<close>, \<open>copy_module_to_local\<close> returns that destination and leaves the
  filesystem as it was: nothing is deleted and nothing is copied, whatever the
  primitives of the environment would do.
\<close>

theorem copy_onto_itself:
  "resolve E f (pjoin lmp (mod_name m)) = resolve E f (mod_path m) \<Longrightarrow>
   copy_module_to_local E m lmp f = (Inr (pjoin lmp (mod_name m)), f)"
  by (simp add: copy_module_to_local_def)

theorem copy_onto_itself_witness:
  "resolve (demo_env [docgen] True) demo_fs (pjoin ''/home/u/.lola/modules'' (mod_name docgen)) =
     resolve (demo_env [docgen] True) demo_fs (mod_path docgen) \<and>
   copy_module_to_local (demo_env [docgen] True) docgen ''/home/u/.lola/modules'' demo_fs =
     (Inr ''/home/u/.lola/modules/docgen'', demo_fs)"
proof -
  have h: "resolve (demo_env [docgen] True) demo_fs (pjoin ''/home/u/.lola/modules'' (mod_name docgen)) =
     resolve (demo_env [docgen] True) demo_fs (mod_path docgen)"
    by (simp add: docgen_def pjoin_def)
  show ?thesis using h copy_onto_itself [OF h] by (simp add: docgen_def pjoin_def)
qed

subsection \<open>What install_to_assistant records\<close>







lemma record_installation_fs [simp]:
  "fs (record_installation m asst scp pp sk cm st) = fs st"
  by (simp add: record_installation_def)

lemma gemini_fail_env_simps [simp]:
  "path_exists gemini_fail_env = (\<lambda>f p. p \<in> set f)"
  "is_symlink gemini_fail_env = (\<lambda>f p. False)"
  "resolve gemini_fail_env = (\<lambda>f p. p)"
  "mkdir_parents gemini_fail_env = (\<lambda>f p. (None, List.insert p f))"
  "rmtree gemini_fail_env = rmtree (demo_env [docgen] True)"
  "copytree gemini_fail_env = copytree (demo_env [docgen] True)"
  "home gemini_fail_env = ''/home/u''"
  "get_skill_description gemini_fail_env = (\<lambda>f source. ''description'')"
  "update_gemini_md gemini_fail_env = (\<lambda>f gemini_file mname gemini_skills ppath. (False, f))"
  by (simp_all add: gemini_fail_env_def)




subsection \<open>Scope restrictions and path resolution\<close>

lemma known_assistant:
  "asst \<in> set (map fst (ASSISTANTS h)) \<longleftrightarrow>
   asst = ''claude-code'' \<or> asst = ''gemini-cli'' \<or> asst = ''cursor''"
  by (auto simp: ASSISTANTS_def)

lemma skill_path_known:
  "asst \<in> set (map fst (ASSISTANTS h)) \<Longrightarrow> \<exists>u pf. map_of (ASSISTANTS h) asst = Some (u, pf)"
  by (auto simp: ASSISTANTS_def)

lemma skill_path_unknown:
  "asst \<notin> set (map fst (ASSISTANTS h)) \<Longrightarrow> map_of (ASSISTANTS h) asst = None"
  by (simp add: map_of_eq_None_iff image_iff)

lemma skill_path_fails_iff:
  "(\<exists>e. get_assistant_skill_path h asst scp pp = Inl e) \<longleftrightarrow>
   (asst \<notin> set (map fst (ASSISTANTS h)) \<or> (scp = ''project'' \<and> \<not> truthy pp))"
proof (cases "asst \<in> set (map fst (ASSISTANTS h))")
  case True
  from skill_path_known [OF True] obtain u pf where "map_of (ASSISTANTS h) asst = Some (u, pf)"
    by blast
  with True show ?thesis by (simp add: get_assistant_skill_path_def)
next
  case False
  with skill_path_unknown [OF False] show ?thesis by (simp add: get_assistant_skill_path_def)
qed

lemma skill_path_error_kind:
  "get_assistant_skill_path h asst scp pp = Inl e \<Longrightarrow> \<exists>msg. e = ValueError msg"
  by (auto simp: get_assistant_skill_path_def split: option.splits prod.splits if_splits)

lemma report_skipped_console:
  "skills_skipped asst scp \<Longrightarrow>
   Print (''[yellow]'' @ asst @ ''[/yellow] skills -> skipped (user scope not supported)'')
     \<in> set (console (report_skipped asst scp st))"
  by (auto simp: skills_skipped_def report_skipped_def Let_def)

text \<open>
  Claim C7, as stated, fails on the code: \<open>get_assistant_skill_path\<close> succeeds for
  gemini-cli and for cursor at user scope (it returns the user location of the table),
  and it fails, with a \<open>ValueError\<close>, for a combination that is not one of the two:
  project scope without a project path.
\<close>

theorem skill_path_counterexample:
  "get_assistant_skill_path ''/home/u'' ''gemini-cli'' ''user'' None = Inr ''/home/u/.gemini/GEMINI.md'' \<and>
   get_assistant_skill_path ''/home/u'' ''cursor'' ''user'' None = Inr ''/home/u/.cursor/rules'' \<and>
   get_assistant_skill_path ''/home/u'' ''claude-code'' ''project'' None =
     Inl (ValueError ''Project path required for project scope'')"
  by (simp add: get_assistant_skill_path_def ASSISTANTS_def pjoin_def)

text \<open>
  Claim C7, amended. Skill path resolution raises exactly for an unknown assistant or
  for project scope without a project path, and what it raises is a \<open>ValueError\<close>.
  The two disallowed combinations, gemini-cli at user scope and cursor at user scope,
  are exactly those for which the installation sets \<open>skills_skipped\<close>: it then reports
  "user scope not supported", installs no skill and leaves the filesystem alone.
  Command path resolution succeeds for every known assistant.
\<close>

theorem skill_scope_restriction:
  "((\<exists>e. get_assistant_skill_path h asst scp pp = Inl e) \<longleftrightarrow>
      (asst \<notin> set (map fst (ASSISTANTS h)) \<or> (scp = ''project'' \<and> \<not> truthy pp))) \<and>
   (\<forall>e. get_assistant_skill_path h asst scp pp = Inl e \<longrightarrow> (\<exists>msg. e = ValueError msg)) \<and>
   (skills_skipped asst scp \<longleftrightarrow> ((asst = ''gemini-cli'' \<or> asst = ''cursor'') \<and> scp = ''user'')) \<and>
   (mod_skills m \<noteq> [] \<and> skills_skipped asst scp \<longrightarrow>
      fst (install_skills E m asst scp pp lmp st) = [] \<and>
      fs (snd (install_skills E m asst scp pp lmp st)) = fs st \<and>
      Print (''[yellow]'' @ asst @ ''[/yellow] skills -> skipped (user scope not supported)'')
        \<in> set (console (snd (install_skills E m asst scp pp lmp st)))) \<and>
   (asst \<in> set (map fst (ASSISTANTS (home E))) \<longrightarrow>
      (\<exists>p. get_assistant_command_path E asst scp pp = Inr p))"
proof -
  have skip: "skills_skipped asst scp \<longleftrightarrow> ((asst = ''gemini-cli'' \<or> asst = ''cursor'') \<and> scp = ''user'')"
    by (auto simp: skills_skipped_def)
  have inst: "mod_skills m \<noteq> [] \<and> skills_skipped asst scp \<longrightarrow>
      fst (install_skills E m asst scp pp lmp st) = [] \<and>
      fs (snd (install_skills E m asst scp pp lmp st)) = fs st \<and>
      Print (''[yellow]'' @ asst @ ''[/yellow] skills -> skipped (user scope not supported)'')
        \<in> set (console (snd (install_skills E m asst scp pp lmp st)))"
    using report_skipped_console [of asst scp st] by (simp add: install_skills_def Let_def)
  have cmd: "asst \<in> set (map fst (ASSISTANTS (home E))) \<longrightarrow>
      (\<exists>p. get_assistant_command_path E asst scp pp = Inr p)"
    by (simp add: get_assistant_command_path_def)
  show ?thesis
    using skill_path_fails_iff [of h asst scp pp] skill_path_error_kind [of h asst scp pp]
      skip inst cmd by blast
qed

theorem skill_scope_restriction_witness:
  "mod_skills docgen \<noteq> [] \<and> skills_skipped ''gemini-cli'' ''user'' \<and>
   ''gemini-cli'' \<in> set (map fst (ASSISTANTS (home (demo_env [docgen] True)))) \<and>
   fst (install_skills (demo_env [docgen] True) docgen ''gemini-cli'' ''user'' None
          ''/home/u/.lola/modules/docgen'' (demo_state [])) = [] \<and>
   fs (snd (install_skills (demo_env [docgen] True) docgen ''gemini-cli'' ''user'' None
          ''/home/u/.lola/modules/docgen'' (demo_state []))) = fs (demo_state []) \<and>
   (\<exists>p. get_assistant_command_path (demo_env [docgen] True) ''gemini-cli'' ''user'' None = Inr p) \<and>
   (\<exists>msg. get_assistant_skill_path ''/home/u'' ''claude-code'' ''project'' None = Inl (ValueError msg))"
proof -
  have a: "mod_skills docgen \<noteq> []" by (simp add: docgen_def)
  have b: "skills_skipped ''gemini-cli'' ''user''" by (simp add: skills_skipped_def)
  have c: "''gemini-cli'' \<in> set (map fst (ASSISTANTS (home (demo_env [docgen] True))))"
    by (simp add: ASSISTANTS_def)
  have d: "get_assistant_skill_path ''/home/u'' ''claude-code'' ''project'' None =
     Inl (ValueError ''Project path required for project scope'')"
    by (simp add: get_assistant_skill_path_def ASSISTANTS_def)
  show ?thesis
    using a b c d
      skill_scope_restriction [of "''/home/u''" "''gemini-cli''" "''user''" None docgen
        "demo_env [docgen] True" "''/home/u/.lola/modules/docgen''" "demo_state []"]
    by simp
qed

subsection \<open>The scenario of a user-scope install to gemini-cli\<close>

text \<open>
  Claim C2. For a module with exactly one skill and no commands, installing to
  gemini-cli at user scope (the copy of the module having returned) prints the two
  lines of the skip, "user scope not supported" first, returns 0 and leaves the
  registry as it was: the state changes in its console only, besides what the copy did.
\<close>

theorem gemini_user_scope_installs_nothing:
  assumes "mod_skills m = [s]" and "mod_commands m = []"
    and "copy_module_to_local E m lm (fs st) = (Inr lmp, f1)"
  shows "install_to_assistant E m ''gemini-cli'' ''user'' pp lm st =
           (Inr 0,
            st\<lparr>fs := f1,
               console := console st @
                 [Print ''[yellow]gemini-cli[/yellow] skills -> skipped (user scope not supported)'',
                  Print ''  Gemini CLI skills can only read files within project directories.'']\<rparr>) \<and>
         registry (snd (install_to_assistant E m ''gemini-cli'' ''user'' pp lm st)) = registry st"
  using assms
  by (simp add: install_to_assistant_def install_skills_def install_commands_def
      skills_skipped_def report_skipped_def record_installation_def say_def Let_def)

theorem gemini_user_scope_installs_nothing_witness:
  "mod_skills docgen = [''summarize''] \<and> mod_commands docgen = [] \<and>
   copy_module_to_local (demo_env [docgen] True) docgen ''/home/u/.lola/modules''
     (fs (demo_state [])) = (Inr ''/home/u/.lola/modules/docgen'', demo_fs) \<and>
   install_to_assistant (demo_env [docgen] True) docgen ''gemini-cli'' ''user'' None
     ''/home/u/.lola/modules'' (demo_state []) =
     (Inr 0,
      \<lparr>fs = demo_fs, registry = [],
       console =
         [Print ''[yellow]gemini-cli[/yellow] skills -> skipped (user scope not supported)'',
          Print ''  Gemini CLI skills can only read files within project directories.'']\<rparr>)"
proof -
  have a: "mod_skills docgen = [''summarize'']" and b: "mod_commands docgen = []"
    by (simp_all add: docgen_def)
  have c: "copy_module_to_local (demo_env [docgen] True) docgen ''/home/u/.lola/modules''
     (fs (demo_state [])) = (Inr ''/home/u/.lola/modules/docgen'', demo_fs)"
    by (simp add: copy_module_to_local_def docgen_def demo_state_def pjoin_def)
  show ?thesis
    using a b c gemini_user_scope_installs_nothing [OF a b c, of None]
    by (simp add: demo_state_def)
qed

subsection \<open>The aggregate document of gemini-cli\<close>

lemma gemini_skills_loop_missing:
  "\<forall>s\<in>set xs. \<not> path_exists E (fs st) (pjoin lmp (path_name s)) \<Longrightarrow>
   gemini_skills_loop E m lmp xs gs acc st =
     (gs, acc,
      st\<lparr>console := console st @
           map (\<lambda>s. Print (''  [red]'' @ path_name s @ ''[/red] (source not found)'')) xs\<rparr>)"
proof (induction xs arbitrary: st)
  case Nil
  show ?case by simp
next
  case (Cons x xs)
  from Cons.prems have "\<forall>s\<in>set xs. \<not> path_exists E (fs (say (''  [red]'' @ path_name x @ ''[/red] (source not found)'') st)) (pjoin lmp (path_name s))"
    by simp
  from Cons.IH [OF this] Cons.prems show ?case by (simp add: Let_def say_def)
qed

text \<open>
  Claim C10. If no skill of the module has its source under the local copy, the
  gemini-cli branch calls \<open>update_gemini_md\<close> not at all: it installs nothing, reports
  every skill as "source not found" and returns the filesystem it received, whatever
  \<open>update_gemini_md\<close> would have written. So the aggregate document is written only if
  the source of at least one skill exists. The same holds for the whole skills step of
  a gemini-cli installation.
\<close>

theorem gemini_md_untouched_without_sources:
  assumes "\<forall>s\<in>set (mod_skills m). \<not> path_exists E (fs st) (pjoin lmp (path_name s))"
  shows "install_gemini_skills E m lmp skill_dest pp st =
           ([], st\<lparr>console := console st @
                  map (\<lambda>s. Print (''  [red]'' @ path_name s @ ''[/red] (source not found)''))
                    (mod_skills m)\<rparr>) \<and>
         fst (install_skills E m ''gemini-cli'' scp pp lmp st) = [] \<and>
         fs (snd (install_skills E m ''gemini-cli'' scp pp lmp st)) = fs st"
proof -
  have g: "install_gemini_skills E m lmp dest pp st' =
           ([], st'\<lparr>console := console st' @
                  map (\<lambda>s. Print (''  [red]'' @ path_name s @ ''[/red] (source not found)''))
                    (mod_skills m)\<rparr>)"
    if "fs st' = fs st" for st' :: "'a state" and dest
    using gemini_skills_loop_missing [of "mod_skills m" E st' lmp m "[]" "[]"] assms that
    by (simp add: install_gemini_skills_def)
  have "fst (install_skills E m ''gemini-cli'' scp pp lmp st) = [] \<and>
         fs (snd (install_skills E m ''gemini-cli'' scp pp lmp st)) = fs st"
    by (simp add: install_skills_def Let_def g split: sum.splits)
  with g [of st skill_dest] show ?thesis by simp
qed

theorem gemini_md_untouched_without_sources_witness:
  "\<not> path_exists (demo_env [] True) (fs (demo_state []))
       (pjoin ''/home/u/.lola/modules/docgen'' (path_name ''absent'')) \<and>
   install_gemini_skills (demo_env [] True) (docgen\<lparr>mod_skills := [''absent'']\<rparr>)
     ''/home/u/.lola/modules/docgen'' ''/tmp/proj/GEMINI.md'' (Some ''/tmp/proj'') (demo_state []) =
     ([], \<lparr>fs = demo_fs, registry = [],
           console = [Print ''  [red]absent[/red] (source not found)'']\<rparr>)"
proof -
  have a: "\<forall>s\<in>set (mod_skills (docgen\<lparr>mod_skills := [''absent'']\<rparr>)).
     \<not> path_exists (demo_env [] True) (fs (demo_state []))
       (pjoin ''/home/u/.lola/modules/docgen'' (path_name s))"
    by (simp add: demo_state_def demo_fs_def pjoin_def path_name_def)
  show ?thesis
    using a gemini_md_untouched_without_sources [OF a, of "''/tmp/proj/GEMINI.md''" "Some ''/tmp/proj''"]
    by (simp add: demo_state_def path_name_def)
qed

subsection \<open>The project path of a persisted record\<close>

lemma registry_add_set: "set (registry_add r reg) \<subseteq> insert r (set reg)"
  by (auto simp: registry_add_def)

lemma install_to_assistant_records:
  assumes "install_to_assistant E m asst scp pp lm st = (r, st')"
    and "rec \<in> set (registry st')"
  shows "rec \<in> set (registry st) \<or> (scope rec = scp \<and> project_path rec = pp)"
proof -
  from install_to_assistant_registry [OF assms(1)]
  consider "registry st' = registry st"
    | sk cm where "registry st' = registry_add (new_installation m asst scp pp sk cm) (registry st)"
    by blast
  then show ?thesis
  proof cases
    case 1
    with assms(2) show ?thesis by simp
  next
    case 2
    with assms(2) registry_add_set [of "new_installation m asst scp pp sk cm" "registry st"]
    have "rec = new_installation m asst scp pp sk cm \<or> rec \<in> set (registry st)" by auto
    then show ?thesis by (auto simp: new_installation_def)
  qed
qed

lemma install_loop_records:
  "install_loop E m scp pp lm assistants tot st = (r, st') \<Longrightarrow> rec \<in> set (registry st') \<Longrightarrow>
   rec \<in> set (registry st) \<or> (scope rec = scp \<and> project_path rec = pp)"
proof (induction assistants arbitrary: tot st)
  case Nil
  then show ?case by simp
next
  case (Cons a assistants)
  obtain r1 st1 where one: "install_to_assistant E m a scp pp lm st = (r1, st1)"
    by (cases "install_to_assistant E m a scp pp lm st")
  show ?case
  proof (cases r1)
    case (Inl e)
    with Cons.prems one have "st' = st1" by simp
    with install_to_assistant_records [OF one] Cons.prems(2) show ?thesis by simp
  next
    case (Inr n)
    with Cons.prems one
    have "install_loop E m scp pp lm assistants (tot + n) (say [] st1) = (r, st')" by simp
    from Cons.IH [OF this Cons.prems(2)]
    have "rec \<in> set (registry st1) \<or> (scope rec = scp \<and> project_path rec = pp)" by simp
    with install_to_assistant_records [OF one] show ?thesis by blast
  qed
qed

lemma install_loop_records_all:
  "install_loop E m scp pp lm assistants tot st = (r, st') \<Longrightarrow>
   \<forall>rec\<in>set (registry st'). rec \<in> set (registry st) \<or> (scope rec = scp \<and> project_path rec = pp)"
  using install_loop_records by blast

lemma install_module_records:
  assumes "install_module E mname m asst_opt scp pp st = (r, st')"
  shows "\<forall>rec\<in>set (registry st'). rec \<in> set (registry st) \<or> (scope rec = scp \<and> project_path rec = pp)"
proof (cases "mod_skills m = [] \<and> mod_commands m = []")
  case True
  with assms show ?thesis by (auto simp: install_module_def)
next
  case False
  define st1 where "st1 = say_all
               ([''[bold]Installing '' @ sq mname @ ''[/bold]'', ''  Scope: '' @ scp] @
                (if truthy pp then [''  Project: '' @ the pp] else []) @ [[]]) st"
  define assistants where "assistants =
           (if truthy asst_opt then [the asst_opt] else map fst (ASSISTANTS (home E)))"
  obtain r2 st2 where loop:
    "install_loop E m scp pp (get_local_modules_path E pp) assistants 0 st1 = (r2, st2)"
    by (cases "install_loop E m scp pp (get_local_modules_path E pp) assistants 0 st1")
  have "install_module E mname m asst_opt scp pp st =
          (case install_loop E m scp pp (get_local_modules_path E pp) assistants 0 st1 of
             (Inl e, st2) \<Rightarrow> (Some e, st2)
           | (Inr total_installed, st2) \<Rightarrow>
               (None,
                say (''[bold green]Installed to '' @ str_nat (length assistants) @
                     '' assistant(s)[/bold green]'') st2))"
    unfolding install_module_def st1_def assistants_def Let_def
    by (rule if_not_P [OF False])
  with assms loop have "registry st' = registry st2"
    by (auto split: sum.splits)
  moreover have "registry st1 = registry st" by (simp add: st1_def)
  ultimately show ?thesis using install_loop_records_all [OF loop] by simp
qed

lemma install_cmd_records:
  assumes "install_cmd E mname asst_opt scp pp0 st = (r, st')"
  shows "\<forall>rec\<in>set (registry st'). rec \<in> set (registry st) \<or>
           (scope rec = scp \<and>
            project_path rec =
              (if scp = ''project'' then Some (resolve E (ensure_lola_dirs E (fs st)) (the pp0))
               else pp0))"
proof (cases "scp = ''project'' \<and> \<not> truthy pp0")
  case True
  with assms show ?thesis by (auto simp: install_cmd_def Let_def)
next
  case False
  define f0 where "f0 = ensure_lola_dirs E (fs st)"
  define pp where "pp = (if scp = ''project'' then Some (resolve E f0 (the pp0)) else pp0)"
  show ?thesis
  proof (cases "(scp = ''project'' \<and> \<not> path_exists E f0 (the pp)) \<or>
                \<not> path_exists E f0 (pjoin (MODULES_DIR E) mname)")
    case True
    with assms False have "registry st' = registry st"
      by (auto simp: install_cmd_def Let_def f0_def pp_def split: if_splits)
    then show ?thesis by simp
  next
    case ok: False
    show ?thesis
    proof (cases "module_from_path E f0 (pjoin (MODULES_DIR E) mname)")
      case None
      with assms False ok have "registry st' = registry st"
        by (auto simp: install_cmd_def Let_def f0_def pp_def split: if_splits)
      then show ?thesis by simp
    next
      case (Some m)
      obtain is_valid errors where v: "module_validate E f0 m = (is_valid, errors)"
        by (cases "module_validate E f0 m")
      show ?thesis
      proof (cases is_valid)
        case False
        with assms \<open>\<not> (scp = ''project'' \<and> \<not> truthy pp0)\<close> ok Some v
        have "registry st' = registry st"
          by (auto simp: install_cmd_def Let_def f0_def pp_def split: if_splits)
        then show ?thesis by simp
      next
        case True
        with assms \<open>\<not> (scp = ''project'' \<and> \<not> truthy pp0)\<close> ok Some v
        have "install_module E mname m asst_opt scp pp (st\<lparr>fs := f0\<rparr>) = (r, st')"
          by (auto simp: install_cmd_def Let_def f0_def pp_def split: if_splits)
        from install_module_records [OF this] have "\<forall>rec\<in>set (registry st').
            rec \<in> set (registry st) \<or> (scope rec = scp \<and> project_path rec = pp)"
          by simp
        then show ?thesis unfolding pp_def f0_def by blast
      qed
    qed
  qed
qed

lemma demo_install_user_scope_with_path:
  "registry (snd (install_cmd (demo_env [docgen] True) ''docgen'' (Some ''claude-code'') ''user''
      (Some ''/tmp/proj'') (demo_state []))) =
   [\<lparr>module_name = ''docgen'', assistant = ''claude-code'', scope = ''user'',
     project_path = Some ''/tmp/proj'', skills = [''docgen-summarize''], commands = []\<rparr>]"
  by (simp add: install_cmd_def install_module_def install_to_assistant_def copy_module_to_local_def
      install_skills_def install_commands_def record_installation_def report_skipped_def
      skills_skipped_def get_assistant_skill_path_def ASSISTANTS_def docgen_def demo_state_def
      demo_fs_def pjoin_def path_name_def prefixed_name_def demo_write_def registry_add_def
      new_installation_def say_def say_all_def Let_def below_def startswith_def)

text \<open>
  Claim C5, as stated, fails on the code: \<open>lola install docgen -a claude-code /tmp/proj\<close>
  (the scope left at its default, \<open>user\<close>, and a project path given) persists a record of
  scope \<open>user\<close> whose project path is not null.
\<close>

theorem user_scope_record_counterexample:
  "\<exists>rec. registry (snd (install_cmd (demo_env [docgen] True) ''docgen'' (Some ''claude-code'')
       ''user'' (Some ''/tmp/proj'') (demo_state []))) = [rec] \<and>
     scope rec = ''user'' \<and> project_path rec = Some ''/tmp/proj'' \<and> project_path rec \<noteq> None"
  unfolding demo_install_user_scope_with_path by simp

text \<open>
  Claim C5, amended. Every record that a run of \<open>install_cmd\<close> adds to the registry has
  the scope of the command; at project scope its project path is not null (it is the
  resolved path of the argument), and at any other scope it is the project path
  argument as given, so it is null exactly when no project path was passed.
\<close>

theorem install_record_project_path:
  assumes "install_cmd E mname asst_opt scp pp0 st = (r, st')"
    and "rec \<in> set (registry st')"
  shows "rec \<in> set (registry st) \<or>
         (scope rec = scp \<and>
          (scp = ''project'' \<longrightarrow>
             project_path rec = Some (resolve E (ensure_lola_dirs E (fs st)) (the pp0)) \<and>
             project_path rec \<noteq> None) \<and>
          (scp \<noteq> ''project'' \<longrightarrow> project_path rec = pp0))"
  using install_cmd_records [OF assms(1)] assms(2) by auto

theorem install_record_project_path_witness:
  "\<exists>rec. rec \<in> set (registry (snd (install_cmd (demo_env [docgen] True) ''docgen''
        (Some ''claude-code'') ''user'' (Some ''/tmp/proj'') (demo_state [])))) \<and>
     rec \<notin> set (registry (demo_state [])) \<and>
     scope rec = ''user'' \<and> project_path rec = Some ''/tmp/proj''"
proof -
  let ?run = "install_cmd (demo_env [docgen] True) ''docgen''
        (Some ''claude-code'') ''user'' (Some ''/tmp/proj'') (demo_state [])"
  let ?rec = "\<lparr>module_name = ''docgen'', assistant = ''claude-code'', scope = ''user'',
     project_path = Some ''/tmp/proj'', skills = [''docgen-summarize''], commands = []\<rparr>"
  have run: "?run = (fst ?run, snd ?run)" by simp
  have mem: "?rec \<in> set (registry (snd ?run))"
    using demo_install_user_scope_with_path by simp
  from install_record_project_path [OF run mem]
  have "scope ?rec = ''user'' \<and> project_path ?rec = Some ''/tmp/proj''"
    by (simp add: demo_state_def)
  with mem show ?thesis by (intro exI [of _ ?rec]) (simp add: demo_state_def)
qed

subsection \<open>Stale records in the update flow\<close>

lemma update_gemini_loop_frame:
  "update_gemini_loop E inst sm xs gs st = (gs', st') \<Longrightarrow>
   fs st' = fs st \<and> registry st' = registry st"
  by (induction xs arbitrary: gs st) (auto simp: Let_def split: if_splits)

lemma update_skill_files_loop_registry:
  "registry (update_skill_files_loop E inst sm dest xs st) = registry st"
  by (induction xs arbitrary: st) (auto simp: Let_def split: prod.splits)

lemma update_commands_loop_registry:
  "registry (update_commands_loop E inst cdir dest xs st) = registry st"
  by (induction xs arbitrary: st) (auto simp: Let_def split: prod.splits)

lemma update_skills_registry [simp]:
  "registry (update_skills E inst sm st) = registry st"
  by (auto simp: update_skills_def update_skill_files_loop_registry
      split: sum.splits prod.splits dest: update_gemini_loop_frame)

lemma update_commands_registry [simp]:
  "registry (update_commands E inst sm st) = registry st"
  by (simp add: update_commands_def update_commands_loop_registry split: sum.splits)

lemma update_one_stale:
  assumes "is_stale E (fs st) inst"
  shows "update_one E inst (stale, st) =
           (None, stale @ [inst],
            st\<lparr>console := console st @
                 [Print (''[red]'' @ module_name inst @ ''[/red] ('' @ assistant inst @ '')''),
                  Print (''  [red]Project path no longer exists: '' @ the (project_path inst) @
                         ''[/red]''),
                  Print (''  [dim]Run '' @ sq (''lola uninstall '' @ module_name inst) @
                         '' to remove this stale entry[/dim]'')]\<rparr>)"
  using assms by (simp add: update_one_def say_all_def)



lemma update_loop_all_stale:
  "\<forall>i\<in>set insts. is_stale E (fs st) i \<Longrightarrow>
   update_loop E insts (stale, st) =
     (None, stale @ insts, st\<lparr>console := console st @ concat (map stale_lines insts)\<rparr>)"
proof (induction insts arbitrary: stale st)
  case Nil
  show ?case by simp
next
  case (Cons i insts)
  let ?st1 = "st\<lparr>console := console st @ stale_lines i\<rparr>"
  from Cons.prems have "is_stale E (fs st) i" by simp
  from update_one_stale [OF this, of stale]
  have one: "update_one E i (stale, st) = (None, stale @ [i], ?st1)"
    by (simp add: stale_lines_def)
  from Cons.prems have "\<forall>j\<in>set insts. is_stale E (fs ?st1) j" by simp
  from Cons.IH [OF this, of "stale @ [i]"] one show ?case by simp
qed














lemma copy_fail_env_simps [simp]:
  "path_exists copy_fail_env = (\<lambda>f p. p \<in> set f)"
  "is_symlink copy_fail_env = (\<lambda>f p. False)"
  "resolve copy_fail_env = (\<lambda>f p. p)"
  "mkdir_parents copy_fail_env = (\<lambda>f p. (None, List.insert p f))"
  "copytree copy_fail_env = (\<lambda>f src dst. (Some (OSError ''PermissionError''), f))"
  "MODULES_DIR copy_fail_env = ''/home/u/.lola/modules''"
  "get_local_modules_path copy_fail_env =
     (\<lambda>ppath. if truthy ppath then pjoin (pjoin (the ppath) ''.lola'') ''modules''
               else ''/home/u/.lola/modules'')"
  "ensure_lola_dirs copy_fail_env = (\<lambda>f. f)"
  "module_from_path copy_fail_env = (\<lambda>f p. find (\<lambda>m. mod_path m = p) [docgen])"
  "module_validate copy_fail_env = (\<lambda>f m. (True, []))"
  by (simp_all add: copy_fail_env_def)





subsection \<open>Uninstalling artifacts that are already gone\<close>









subsection \<open>The confirmation of an uninstall\<close>

lemma prompts_simps [simp]:
  "prompts [] = []" "prompts (xs @ ys) = prompts xs @ prompts ys"
  "prompts (Print l # xs) = prompts xs" "prompts (Prompt q # xs) = q # prompts xs"
  "prompts (map Print ls) = []"
  by (simp_all add: prompts_def comp_def)

lemma remove_cursor_rules_prompts:
  "remove_cursor_rules E dest xs st = (r, st') \<Longrightarrow> prompts (console st') = prompts (console st)"
  by (induction xs arbitrary: st) (auto simp: Let_def split: if_splits prod.splits option.splits)

lemma remove_skill_dirs_prompts:
  "remove_skill_dirs E dest xs st = (r, st') \<Longrightarrow> prompts (console st') = prompts (console st)"
  by (induction xs arbitrary: st) (auto simp: Let_def split: if_splits prod.splits option.splits)

lemma remove_command_files_prompts:
  "remove_command_files E mname asst dest xs st = (r, st') \<Longrightarrow>
   prompts (console st') = prompts (console st)"
  by (induction xs arbitrary: st) (auto simp: Let_def split: if_splits prod.splits option.splits)

lemma uninstall_skills_prompts:
  "uninstall_skills E mname inst st = (r, st') \<Longrightarrow> prompts (console st') = prompts (console st)"
  by (auto simp: uninstall_skills_def split: if_splits sum.splits prod.splits
      dest: remove_cursor_rules_prompts remove_skill_dirs_prompts)

lemma uninstall_commands_prompts:
  "uninstall_commands E mname inst st = (r, st') \<Longrightarrow> prompts (console st') = prompts (console st)"
  by (auto simp: uninstall_commands_def split: if_splits sum.splits
      dest: remove_command_files_prompts)

lemma remove_local_copy_prompts:
  "remove_local_copy E mname inst st = (r, st') \<Longrightarrow> prompts (console st') = prompts (console st)"
  by (auto simp: remove_local_copy_def Let_def split: if_splits prod.splits option.splits)

lemma uninstall_one_prompts:
  assumes "uninstall_one E mname inst st = (r, st')"
  shows "prompts (console st') = prompts (console st)"
proof -
  obtain r1 st1 where s1: "uninstall_skills E mname inst st = (r1, st1)"
    by (cases "uninstall_skills E mname inst st")
  obtain r2 st2 where s2: "uninstall_commands E mname inst st1 = (r2, st2)"
    by (cases "uninstall_commands E mname inst st1")
  obtain r3 st3 where s3: "remove_local_copy E mname inst st2 = (r3, st3)"
    by (cases "remove_local_copy E mname inst st2")
  note p = uninstall_skills_prompts [OF s1] uninstall_commands_prompts [OF s2]
    remove_local_copy_prompts [OF s3]
  show ?thesis using assms s1 s2 s3 p
    by (cases r1; cases r2; cases r3) (auto simp: uninstall_one_def)
qed

lemma uninstall_loop_prompts:
  "uninstall_loop E mname insts st = (r, st') \<Longrightarrow> prompts (console st') = prompts (console st)"
proof (induction insts arbitrary: st)
  case Nil
  then show ?case by simp
next
  case (Cons i insts)
  obtain r1 st1 where one: "uninstall_one E mname i st = (r1, st1)"
    by (cases "uninstall_one E mname i st")
  show ?case
  proof (cases r1)
    case None
    with Cons.prems one have "uninstall_loop E mname insts st1 = (r, st')" by simp
    from Cons.IH [OF this] uninstall_one_prompts [OF one] show ?thesis by simp
  next
    case (Some e)
    with Cons.prems one uninstall_one_prompts [OF one] show ?thesis by auto
  qed
qed

lemma uninstall_matching_refused:
  assumes "confirm_needed insts force" and "\<not> confirm E ''Uninstall all?''"
  shows "fst (uninstall_matching E mname force insts st) = None \<and>
         fs (snd (uninstall_matching E mname force insts st)) = fs st \<and>
         registry (snd (uninstall_matching E mname force insts st)) = registry st \<and>
         prompts (console (snd (uninstall_matching E mname force insts st))) =
           prompts (console st) @ [''Uninstall all?'']"
  using assms by (simp add: uninstall_matching_def Let_def)

lemma uninstall_matching_prompts:
  "prompts (console (snd (uninstall_matching E mname force insts st))) =
     prompts (console st) @ (if confirm_needed insts force then [''Uninstall all?''] else [])"
proof (cases "confirm_needed insts force \<and> \<not> confirm E ''Uninstall all?''")
  case True
  with uninstall_matching_refused [of insts force E mname st] show ?thesis by simp
next
  case False
  define st2 where "st2 =
     (let st1 = say_all
            ([''[bold]Found '' @ str_nat (length insts) @
              '' installation(s) of '' @ sq mname @ '':[/bold]'', []] @
             concat (map show_installation insts) @ [[]]) st
      in if confirm_needed insts force then
                   st1\<lparr>console :=
                         console st1 @
                         [Print ''[yellow]Multiple installations found.[/yellow]'',
                          Print ''Use -a <assistant> and -s <scope> to target specific installation,'',
                          Print ''or use -f/--force to uninstall all.'',
                          Prompt ''Uninstall all?'']\<rparr>
                 else st1)"
  have p2: "prompts (console st2) =
     prompts (console st) @ (if confirm_needed insts force then [''Uninstall all?''] else [])"
    by (simp add: st2_def Let_def)
  obtain r st3 where loop: "uninstall_loop E mname insts st2 = (r, st3)"
    by (cases "uninstall_loop E mname insts st2")
  have "uninstall_matching E mname force insts st =
          (case uninstall_loop E mname insts st2 of
              (Some e, st3) \<Rightarrow> (Some e, st3)
            | (None, st3) \<Rightarrow>
                (None,
                 say_all [[], ''[bold green]Uninstalled '' @ sq mname @ ''[/bold green]''] st3))"
    unfolding uninstall_matching_def st2_def Let_def by (rule if_not_P [OF False])
  with loop uninstall_loop_prompts [OF loop] p2 show ?thesis
    by (cases r) simp_all
qed

lemma uninstall_cmd_unfold:
  "uninstall_cmd E mname a s p force st =
     (let st1 = st\<lparr>fs := ensure_lola_dirs E (fs st)\<rparr>;
          insts = matching_installations E (ensure_lola_dirs E (fs st)) a s p
                    (registry_find (registry st) mname)
      in if registry_find (registry st) mname = [] then
           (None, say (''[yellow]No installations found for '' @ sq mname @ ''[/yellow]'') st1)
         else if insts = [] then
           (None, say ''[yellow]No matching installations found[/yellow]'' st1)
         else uninstall_matching E mname force insts st1)"
  by (simp add: uninstall_cmd_def Let_def)

lemma matching_nil [simp]: "matching_installations E f a s p [] = []"
  by (simp add: matching_installations_def Let_def)

text \<open>
  Claim C6. With more than one matching installation and no force flag,
  \<open>uninstall_cmd\<close> asks "Uninstall all?" exactly once, whatever happens afterwards; if the
  answer is no, the command returns normally with the registry unchanged and the
  filesystem as \<open>ensure_lola_dirs\<close> made it, so nothing was removed before the question.
  With at most one match, or with the force flag, no question is asked.
\<close>

theorem uninstall_confirmation:
  "(1 < length (matching_installations E (ensure_lola_dirs E (fs st)) a s p
                 (registry_find (registry st) mname)) \<and> \<not> force \<longrightarrow>
      prompts (console (snd (uninstall_cmd E mname a s p force st))) =
        prompts (console st) @ [''Uninstall all?'']) \<and>
   (1 < length (matching_installations E (ensure_lola_dirs E (fs st)) a s p
                 (registry_find (registry st) mname)) \<and> \<not> force \<and>
    \<not> confirm E ''Uninstall all?'' \<longrightarrow>
      fst (uninstall_cmd E mname a s p force st) = None \<and>
      fs (snd (uninstall_cmd E mname a s p force st)) = ensure_lola_dirs E (fs st) \<and>
      registry (snd (uninstall_cmd E mname a s p force st)) = registry st) \<and>
   (length (matching_installations E (ensure_lola_dirs E (fs st)) a s p
              (registry_find (registry st) mname)) \<le> 1 \<or> force \<longrightarrow>
      prompts (console (snd (uninstall_cmd E mname a s p force st))) = prompts (console st))"
proof -
  let ?insts = "matching_installations E (ensure_lola_dirs E (fs st)) a s p
                  (registry_find (registry st) mname)"
  let ?st1 = "st\<lparr>fs := ensure_lola_dirs E (fs st)\<rparr>"
  show ?thesis
  proof (cases "registry_find (registry st) mname = [] \<or> ?insts = []")
    case True
    then have e: "?insts = []" by auto
    from True have "prompts (console (snd (uninstall_cmd E mname a s p force st))) =
        prompts (console st)"
      by (auto simp: uninstall_cmd_unfold Let_def)
    with e show ?thesis by simp
  next
    case False
    then have u: "uninstall_cmd E mname a s p force st = uninstall_matching E mname force ?insts ?st1"
      by (simp add: uninstall_cmd_unfold Let_def)
    have p: "prompts (console (snd (uninstall_cmd E mname a s p force st))) =
       prompts (console st) @ (if confirm_needed ?insts force then [''Uninstall all?''] else [])"
      using uninstall_matching_prompts [of E mname force ?insts ?st1] u by simp
    have r: "confirm_needed ?insts force \<and> \<not> confirm E ''Uninstall all?'' \<longrightarrow>
      fst (uninstall_cmd E mname a s p force st) = None \<and>
      fs (snd (uninstall_cmd E mname a s p force st)) = ensure_lola_dirs E (fs st) \<and>
      registry (snd (uninstall_cmd E mname a s p force st)) = registry st"
      using uninstall_matching_refused [of ?insts force E mname ?st1] u by simp
    have n: "length ?insts \<le> 1 \<or> force \<longrightarrow> \<not> confirm_needed ?insts force"
      by (auto simp: confirm_needed_def)
    from p r n show ?thesis by (auto simp: confirm_needed_def)
  qed
qed

theorem uninstall_confirmation_witness:
  "1 < length (matching_installations (demo_env [docgen] False) demo_fs None None None
                (registry_find two_records ''docgen'')) \<and>
   \<not> confirm (demo_env [docgen] False) ''Uninstall all?'' \<and>
   prompts (console (snd (uninstall_cmd (demo_env [docgen] False) ''docgen'' None None None False
      (demo_state two_records)))) = [''Uninstall all?''] \<and>
   fs (snd (uninstall_cmd (demo_env [docgen] False) ''docgen'' None None None False
      (demo_state two_records))) = demo_fs \<and>
   registry (snd (uninstall_cmd (demo_env [docgen] False) ''docgen'' None None None False
      (demo_state two_records))) = two_records \<and>
   prompts (console (snd (uninstall_cmd (demo_env [docgen] False) ''docgen'' None None None True
      (demo_state two_records)))) = []"
proof -
  let ?E = "demo_env [docgen] False"
  have m: "matching_installations ?E demo_fs None None None (registry_find two_records ''docgen'') =
           two_records"
    by (simp add: matching_installations_def registry_find_def two_records_def)
  have a: "1 < length (matching_installations ?E (ensure_lola_dirs ?E (fs (demo_state two_records)))
             None None None (registry_find (registry (demo_state two_records)) ''docgen''))"
    by (simp add: demo_state_def m) (simp add: two_records_def)
  have b: "\<not> confirm ?E ''Uninstall all?''" by simp
  from uninstall_confirmation [of ?E "demo_state two_records" None None None "''docgen''" False] a b
  have 1: "prompts (console (snd (uninstall_cmd ?E ''docgen'' None None None False
      (demo_state two_records)))) = [''Uninstall all?''] \<and>
   fs (snd (uninstall_cmd ?E ''docgen'' None None None False (demo_state two_records))) = demo_fs \<and>
   registry (snd (uninstall_cmd ?E ''docgen'' None None None False (demo_state two_records))) =
     two_records"
    by (simp add: demo_state_def)
  from uninstall_confirmation [of ?E "demo_state two_records" None None None "''docgen''" True]
  have 2: "prompts (console (snd (uninstall_cmd ?E ''docgen'' None None None True
      (demo_state two_records)))) = []"
    by (simp add: demo_state_def)
  from a b 1 2 show ?thesis by (simp add: demo_state_def)
qed

end
